theory Spec2Isabelle
  imports Complex_Main
begin

section \<open>JavaScript values used by the server\<close>

text \<open>
  The tool arguments arrive as a JSON value. Numbers are modelled as rationals: every
  number that JSON text can denote as a finite double is one. An object is the list of
  its members in source order.
\<close>

datatype json =
    JNull
  | JBool bool
  | JNum rat
  | JStr string
  | JArr "json list"
  | JObj "(string \<times> json) list"

text \<open>
  Reading the property \<open>k\<close> of an object: \<open>None\<close> is \<open>undefined\<close> (the key is
  absent). When a key is repeated in the JSON text the last member wins, as in
  \<open>JSON.parse\<close>.
\<close>

definition field :: "(string \<times> json) list \<Rightarrow> string \<Rightarrow> json option" where
  "field fs k = map_of (rev fs) k"

text \<open>
  Truthiness of a value that is a string or \<open>undefined\<close>: \<open>undefined\<close> and the empty
  string are falsy, every other string is truthy.
\<close>

fun truthy :: "string option \<Rightarrow> bool" where
  "truthy None = False"
| "truthy (Some s) = (s \<noteq> [])"

text \<open>The operator \<open>a || b\<close> on such values.\<close>

definition js_or :: "string option \<Rightarrow> string option \<Rightarrow> string option" where
  "js_or a b = (if truthy a then a else b)"

text \<open>
  \<open>xs || d\<close> where \<open>xs\<close> is an array or \<open>undefined\<close>: every array, the empty one
  too, is truthy.
\<close>

definition or_array :: "'a list option \<Rightarrow> 'a list \<Rightarrow> 'a list" where
  "or_array xs d = (case xs of None \<Rightarrow> d | Some ys \<Rightarrow> ys)"

text \<open>
  A destructuring default \<open>{ x = d }\<close>: the default is taken exactly when the property
  is \<open>undefined\<close>.
\<close>

definition param_default :: "'a option \<Rightarrow> 'a \<Rightarrow> 'a" where
  "param_default v d = (case v of None \<Rightarrow> d | Some x \<Rightarrow> x)"

datatype js_null = null

section \<open>Process-wide configuration\<close>

record process_env =
  GA4_PROPERTY_ID :: "string option"
  GA_PROPERTY_ID :: "string option"

text \<open>
  \<open>const propertyId = process.env.GA4_PROPERTY_ID || process.env.GA_PROPERTY_ID\<close>,
  the default captured at startup (named \<open>default_propertyId\<close> here: the argument
  objects have a field \<open>propertyId\<close> as well).
\<close>

definition default_propertyId :: "process_env \<Rightarrow> string option" where
  "default_propertyId env = js_or (GA4_PROPERTY_ID env) (GA_PROPERTY_ID env)"

section \<open>Argument objects and backend requests\<close>

record overrides =
  propertyId :: "string option"

record date_range =
  startDate :: string
  endDate :: string

record preset_args = overrides +
  startDate :: "string option"
  endDate :: "string option"

record realtime_args = overrides +
  dimensions :: "string list option"
  metrics :: "string list option"

record report_args = overrides +
  dateRanges :: "date_range list"
  dimensions :: "string list option"
  metrics :: "string list"
  dimensionFilter :: "json option"
  metricFilter :: "json option"
  limit :: "rat option"
  offset :: "rat option"
  orderBys :: "json option"

text \<open>The record \<open>{ name }\<close> that wraps a dimension or metric name.\<close>

record named =
  name :: string

text \<open>
  The request of \<open>runRealtimeReport\<close>; the request of \<open>runReport\<close> has the same three
  fields and six more.
\<close>

record realtime_report_request =
  property :: "string option"
  dimensions :: "named list"
  metrics :: "named list"

record report_request = realtime_report_request +
  dateRanges :: "date_range list"
  dimensionFilter :: "json option"
  metricFilter :: "json option"
  limit :: "rat option"
  offset :: "rat option"
  orderBys :: "json option"

section \<open>buildProperty\<close>

text \<open>
  The local \<open>id\<close> of \<open>buildProperty\<close>: \<open>overrides?.propertyId || propertyId\<close>. The
  argument is \<open>None\<close> when \<open>overrides\<close> itself is \<open>undefined\<close> or \<open>null\<close>.
\<close>

definition buildProperty_id :: "process_env \<Rightarrow> 'a overrides_scheme option \<Rightarrow> string option" where
  "buildProperty_id env ovr =
     js_or (case ovr of None \<Rightarrow> None | Some obj \<Rightarrow> overrides.propertyId obj)
           (default_propertyId env)"

definition buildProperty :: "process_env \<Rightarrow> 'a overrides_scheme option \<Rightarrow> string option" where
  "buildProperty env ovr =
     (let id = buildProperty_id env ovr
      in if \<not> truthy id then None
         else map_option (\<lambda>s. ''properties/'' @ s) id)"

section \<open>Input schemas\<close>

text \<open>
  The schema library is not part of the repository; its combinators are modelled as far
  as the seven schemas use them. A schema reads a value or \<open>undefined\<close> (\<open>None\<close>) and
  either fails or returns the parsed value. Two behaviours differ between the major
  versions of the library, so the version is a parameter:
  \<^item> \<open>.default(d).optional()\<close> on \<open>undefined\<close> gives \<open>undefined\<close> in version 3 and
    \<open>d\<close> in version 4;
  \<^item> \<open>.int()\<close> accepts every integer in version 3 and the safe integers only in
    version 4.
\<close>

datatype zod_version = Zod3 | Zod4

datatype zod_error = ZodError

type_synonym 'a schema = "json option \<Rightarrow> zod_error + 'a"

definition and_then :: "zod_error + 'a \<Rightarrow> ('a \<Rightarrow> zod_error + 'b) \<Rightarrow> zod_error + 'b" where
  "and_then r f = (case r of Inl e \<Rightarrow> Inl e | Inr a \<Rightarrow> f a)"

definition z_string :: "string schema" where
  "z_string v = (case v of Some (JStr s) \<Rightarrow> Inr s | _ \<Rightarrow> Inl ZodError)"

definition z_number :: "rat schema" where
  "z_number v = (case v of Some (JNum r) \<Rightarrow> Inr r | _ \<Rightarrow> Inl ZodError)"

definition z_check :: "('a \<Rightarrow> bool) \<Rightarrow> 'a schema \<Rightarrow> 'a schema" where
  "z_check ok S v = and_then (S v) (\<lambda>a. if ok a then Inr a else Inl ZodError)"

definition is_int :: "zod_version \<Rightarrow> rat \<Rightarrow> bool" where
  "is_int ver r =
     (of_int \<lfloor>r\<rfloor> = r \<and>
      (case ver of Zod3 \<Rightarrow> True | Zod4 \<Rightarrow> \<bar>r\<bar> \<le> 9007199254740991))"

definition z_int :: "zod_version \<Rightarrow> rat schema \<Rightarrow> rat schema" where
  "z_int ver = z_check (is_int ver)"

definition z_positive :: "rat schema \<Rightarrow> rat schema" where
  "z_positive = z_check (\<lambda>r. 0 < r)"

definition z_nonnegative :: "rat schema \<Rightarrow> rat schema" where
  "z_nonnegative = z_check (\<lambda>r. 0 \<le> r)"

fun z_array_items :: "'a schema \<Rightarrow> json list \<Rightarrow> zod_error + 'a list" where
  "z_array_items T [] = Inr []"
| "z_array_items T (x # xs) =
     and_then (T (Some x)) (\<lambda>y. and_then (z_array_items T xs) (\<lambda>ys. Inr (y # ys)))"

definition z_array :: "'a schema \<Rightarrow> 'a list schema" where
  "z_array T v = (case v of Some (JArr xs) \<Rightarrow> z_array_items T xs | _ \<Rightarrow> Inl ZodError)"

definition z_nonempty :: "'a list schema \<Rightarrow> 'a list schema" where
  "z_nonempty = z_check (\<lambda>xs. xs \<noteq> [])"

definition z_optional :: "'a schema \<Rightarrow> 'a option schema" where
  "z_optional S v = (case v of None \<Rightarrow> Inr None | Some x \<Rightarrow> and_then (S v) (\<lambda>a. Inr (Some a)))"

text \<open>\<open>S.default(d).optional()\<close>.\<close>

definition z_default_optional :: "zod_version \<Rightarrow> 'a \<Rightarrow> 'a schema \<Rightarrow> 'a option schema" where
  "z_default_optional ver d S v =
     (case v of
        None \<Rightarrow> (case ver of Zod3 \<Rightarrow> Inr None | Zod4 \<Rightarrow> Inr (Some d))
      | Some x \<Rightarrow> and_then (S v) (\<lambda>a. Inr (Some a)))"

text \<open>
  \<open>z.any().optional()\<close>: every value passes, \<open>undefined\<close> and \<open>null\<close> included, and is
  returned as it is.
\<close>

definition z_any_optional :: "json option schema" where
  "z_any_optional v = Inr v"

text \<open>\<open>z.object({ startDate: z.string(), endDate: z.string() })\<close>.\<close>

definition z_dateRange :: "date_range schema" where
  "z_dateRange v =
     (case v of
        Some (JObj fs) \<Rightarrow>
          and_then (z_string (field fs ''startDate'')) (\<lambda>s.
          and_then (z_string (field fs ''endDate'')) (\<lambda>e.
          Inr \<lparr>date_range.startDate = s, date_range.endDate = e\<rparr>))
      | _ \<Rightarrow> Inl ZodError)"

definition query_analytics_inputSchema :: "zod_version \<Rightarrow> report_args schema" where
  "query_analytics_inputSchema ver v =
     (case v of
        Some (JObj fs) \<Rightarrow>
          and_then (z_optional z_string (field fs ''propertyId'')) (\<lambda>pid.
          and_then (z_nonempty (z_array z_dateRange) (field fs ''dateRanges'')) (\<lambda>drs.
          and_then (z_optional (z_array z_string) (field fs ''dimensions'')) (\<lambda>dims.
          and_then (z_nonempty (z_array z_string) (field fs ''metrics'')) (\<lambda>ms.
          and_then (z_any_optional (field fs ''dimensionFilter'')) (\<lambda>df.
          and_then (z_any_optional (field fs ''metricFilter'')) (\<lambda>mf.
          and_then (z_optional (z_positive (z_int ver z_number)) (field fs ''limit'')) (\<lambda>lim.
          and_then (z_optional (z_nonnegative (z_int ver z_number)) (field fs ''offset'')) (\<lambda>off.
          and_then (z_any_optional (field fs ''orderBys'')) (\<lambda>ob.
          Inr \<lparr>propertyId = pid, report_args.dateRanges = drs,
               report_args.dimensions = dims, report_args.metrics = ms,
               report_args.dimensionFilter = df, report_args.metricFilter = mf,
               report_args.limit = lim, report_args.offset = off,
               report_args.orderBys = ob\<rparr>)))))))))
      | _ \<Rightarrow> Inl ZodError)"

definition get_realtime_data_inputSchema :: "zod_version \<Rightarrow> realtime_args schema" where
  "get_realtime_data_inputSchema ver v =
     (case v of
        Some (JObj fs) \<Rightarrow>
          and_then (z_optional z_string (field fs ''propertyId'')) (\<lambda>pid.
          and_then (z_default_optional ver [''country''] (z_array z_string)
                      (field fs ''dimensions'')) (\<lambda>dims.
          and_then (z_default_optional ver [''activeUsers''] (z_array z_string)
                      (field fs ''metrics'')) (\<lambda>ms.
          Inr \<lparr>propertyId = pid, realtime_args.dimensions = dims,
               realtime_args.metrics = ms\<rparr>)))
      | _ \<Rightarrow> Inl ZodError)"

text \<open>
  The four fixed-preset tools (traffic sources, user demographics, page performance,
  conversion data) declare the same schema.
\<close>

definition preset_inputSchema :: "zod_version \<Rightarrow> preset_args schema" where
  "preset_inputSchema ver v =
     (case v of
        Some (JObj fs) \<Rightarrow>
          and_then (z_optional z_string (field fs ''propertyId'')) (\<lambda>pid.
          and_then (z_default_optional ver ''7daysAgo'' z_string (field fs ''startDate'')) (\<lambda>s.
          and_then (z_default_optional ver ''today'' z_string (field fs ''endDate'')) (\<lambda>e.
          Inr \<lparr>propertyId = pid, preset_args.startDate = s, preset_args.endDate = e\<rparr>)))
      | _ \<Rightarrow> Inl ZodError)"

definition get_custom_report_inputSchema :: "zod_version \<Rightarrow> report_args schema" where
  "get_custom_report_inputSchema ver v =
     (case v of
        Some (JObj fs) \<Rightarrow>
          and_then (z_optional z_string (field fs ''propertyId'')) (\<lambda>pid.
          and_then (z_default_optional ver [] (z_array z_string) (field fs ''dimensions'')) (\<lambda>dims.
          and_then (z_nonempty (z_array z_string) (field fs ''metrics'')) (\<lambda>ms.
          and_then (z_nonempty (z_array z_dateRange) (field fs ''dateRanges'')) (\<lambda>drs.
          and_then (z_any_optional (field fs ''dimensionFilter'')) (\<lambda>df.
          and_then (z_any_optional (field fs ''metricFilter'')) (\<lambda>mf.
          and_then (z_optional (z_positive (z_int ver z_number)) (field fs ''limit'')) (\<lambda>lim.
          and_then (z_optional (z_nonnegative (z_int ver z_number)) (field fs ''offset'')) (\<lambda>off.
          and_then (z_any_optional (field fs ''orderBys'')) (\<lambda>ob.
          Inr \<lparr>propertyId = pid, report_args.dateRanges = drs,
               report_args.dimensions = dims, report_args.metrics = ms,
               report_args.dimensionFilter = df, report_args.metricFilter = mf,
               report_args.limit = lim, report_args.offset = off,
               report_args.orderBys = ob\<rparr>)))))))))
      | _ \<Rightarrow> Inl ZodError)"

section \<open>The backend, the output envelope and the handlers\<close>

text \<open>
  The analytics client is external. A call either rejects with an exception \<open>'e\<close> or
  resolves to a tuple whose first element is the result \<open>'r\<close>; \<open>'m\<close> stands for the
  remaining elements of the tuple.
\<close>

record ('r, 'm, 'e) client =
  runReport :: "report_request \<Rightarrow> 'e + 'r \<times> 'm"
  runRealtimeReport :: "realtime_report_request \<Rightarrow> 'e + 'r \<times> 'm"

text \<open>
  What the server runs on: the environment read at startup, the client, the builtin
  \<open>JSON.stringify\<close> (which returns a string for an object, or throws) and the version
  of the schema library.
\<close>

record ('r, 'm, 'e) host =
  env :: process_env
  analyticsDataClient :: "('r, 'm, 'e) client"
  JSON_stringify :: "'r \<Rightarrow> js_null \<Rightarrow> nat \<Rightarrow> 'e + string"
  zod :: zod_version

text \<open>A content block \<open>{ type, text }\<close> (the field \<open>text\<close> is written \<open>text'\<close>).\<close>

record text_block =
  type :: string
  text' :: string

record tool_output =
  content :: "text_block list"

datatype 'e failure = InputValidationError | Thrown 'e

datatype backend_call = RunReport report_request | RunRealtimeReport realtime_report_request

text \<open>
  An invocation is observed as the list of backend calls it made, in order, and its
  result.
\<close>

type_synonym 'e outcome = "backend_call list \<times> ('e failure + tool_output)"

definition toToolTextContent :: "('r, 'm, 'e) host \<Rightarrow> 'r \<Rightarrow> 'e + tool_output" where
  "toToolTextContent h obj =
     (case JSON_stringify h obj null 2 of
        Inl e \<Rightarrow> Inl e
      | Inr s \<Rightarrow> Inr \<lparr>content = [\<lparr>type = ''text'', text' = s\<rparr>]\<rparr>)"

text \<open>
  The two statements every handler ends with:
  \<open>const [response] = await <call>; return toToolTextContent(response);\<close>
\<close>

definition respond :: "('r, 'm, 'e) host \<Rightarrow> 'e + 'r \<times> 'm \<Rightarrow> 'e failure + tool_output" where
  "respond h awaited =
     (case awaited of
        Inl e \<Rightarrow> Inl (Thrown e)
      | Inr (response, rest) \<Rightarrow>
          (case toToolTextContent h response of
             Inl e \<Rightarrow> Inl (Thrown e)
           | Inr out \<Rightarrow> Inr out))"

text \<open>The request object literal of the \<open>query_analytics\<close> and \<open>get_custom_report\<close> handlers.\<close>

definition report_request_of :: "process_env \<Rightarrow> report_args \<Rightarrow> report_request" where
  "report_request_of e args =
     \<lparr>property = buildProperty e (Some args),
      dimensions = map (\<lambda>name. \<lparr>name = name\<rparr>) (or_array (report_args.dimensions args) []),
      metrics = map (\<lambda>name. \<lparr>name = name\<rparr>) (report_args.metrics args),
      dateRanges = report_args.dateRanges args,
      dimensionFilter = report_args.dimensionFilter args,
      metricFilter = report_args.metricFilter args,
      limit = report_args.limit args,
      offset = report_args.offset args,
      orderBys = report_args.orderBys args\<rparr>"

definition query_analytics_handler :: "('r, 'm, 'e) host \<Rightarrow> report_args \<Rightarrow> 'e outcome" where
  "query_analytics_handler h args =
     (let req = report_request_of (env h) args
      in ([RunReport req], respond h (runReport (analyticsDataClient h) req)))"

definition get_custom_report_handler :: "('r, 'm, 'e) host \<Rightarrow> report_args \<Rightarrow> 'e outcome" where
  "get_custom_report_handler h args =
     (let req = report_request_of (env h) args
      in ([RunReport req], respond h (runReport (analyticsDataClient h) req)))"

definition realtime_request_of :: "process_env \<Rightarrow> realtime_args \<Rightarrow> realtime_report_request" where
  "realtime_request_of e args =
     \<lparr>property = buildProperty e (Some args),
      dimensions = map (\<lambda>name. \<lparr>name = name\<rparr>)
                     (or_array (realtime_args.dimensions args) [''country'']),
      metrics = map (\<lambda>name. \<lparr>name = name\<rparr>)
                  (or_array (realtime_args.metrics args) [''activeUsers''])\<rparr>"

definition get_realtime_data_handler :: "('r, 'm, 'e) host \<Rightarrow> realtime_args \<Rightarrow> 'e outcome" where
  "get_realtime_data_handler h args =
     (let req = realtime_request_of (env h) args
      in ([RunRealtimeReport req], respond h (runRealtimeReport (analyticsDataClient h) req)))"

text \<open>
  The request of a fixed-preset handler: the parameter list destructures the arguments
  with the defaults \<open>startDate = "7daysAgo"\<close> and \<open>endDate = "today"\<close>, and the handler
  passes \<open>{ propertyId: overrideId }\<close> to \<open>buildProperty\<close>. The dimension and metric
  records are literals of the handler.
\<close>

definition preset_request_of ::
  "named list \<Rightarrow> named list \<Rightarrow> process_env \<Rightarrow> preset_args \<Rightarrow> report_request" where
  "preset_request_of dims mets e args =
     (let overrideId = overrides.propertyId args;
          startDate = param_default (preset_args.startDate args) ''7daysAgo'';
          endDate = param_default (preset_args.endDate args) ''today''
      in \<lparr>property = buildProperty e (Some \<lparr>propertyId = overrideId\<rparr>),
          dimensions = dims,
          metrics = mets,
          dateRanges = [\<lparr>date_range.startDate = startDate, date_range.endDate = endDate\<rparr>],
          dimensionFilter = None,
          metricFilter = None,
          limit = None,
          offset = None,
          orderBys = None\<rparr>)"

definition get_traffic_sources_handler :: "('r, 'm, 'e) host \<Rightarrow> preset_args \<Rightarrow> 'e outcome" where
  "get_traffic_sources_handler h args =
     (let req = preset_request_of [\<lparr>name = ''source''\<rparr>, \<lparr>name = ''medium''\<rparr>]
                  [\<lparr>name = ''sessions''\<rparr>] (env h) args
      in ([RunReport req], respond h (runReport (analyticsDataClient h) req)))"

definition get_user_demographics_handler :: "('r, 'm, 'e) host \<Rightarrow> preset_args \<Rightarrow> 'e outcome" where
  "get_user_demographics_handler h args =
     (let req = preset_request_of [\<lparr>name = ''country''\<rparr>, \<lparr>name = ''city''\<rparr>]
                  [\<lparr>name = ''activeUsers''\<rparr>] (env h) args
      in ([RunReport req], respond h (runReport (analyticsDataClient h) req)))"

definition get_page_performance_handler :: "('r, 'm, 'e) host \<Rightarrow> preset_args \<Rightarrow> 'e outcome" where
  "get_page_performance_handler h args =
     (let req = preset_request_of [\<lparr>name = ''pagePath''\<rparr>]
                  [\<lparr>name = ''screenPageViews''\<rparr>, \<lparr>name = ''averageSessionDuration''\<rparr>]
                  (env h) args
      in ([RunReport req], respond h (runReport (analyticsDataClient h) req)))"

definition get_conversion_data_handler :: "('r, 'm, 'e) host \<Rightarrow> preset_args \<Rightarrow> 'e outcome" where
  "get_conversion_data_handler h args =
     (let req = preset_request_of [\<lparr>name = ''eventName''\<rparr>]
                  [\<lparr>name = ''eventCount''\<rparr>] (env h) args
      in ([RunReport req], respond h (runReport (analyticsDataClient h) req)))"

section \<open>Registered tools\<close>

datatype tool =
    query_analytics
  | get_realtime_data
  | get_traffic_sources
  | get_user_demographics
  | get_page_performance
  | get_conversion_data
  | get_custom_report

text \<open>
  A registered tool is its input schema and its handler: the arguments are parsed
  against the schema, a failure rejects the invocation before the handler runs, and
  the handler receives the parsed arguments.
\<close>

definition registerTool ::
  "'a schema \<Rightarrow> ('a \<Rightarrow> 'e outcome) \<Rightarrow> json option \<Rightarrow> 'e outcome" where
  "registerTool inputSchema handler arguments =
     (case inputSchema arguments of
        Inl issue \<Rightarrow> ([], Inl InputValidationError)
      | Inr args \<Rightarrow> handler args)"

fun callTool :: "('r, 'm, 'e) host \<Rightarrow> tool \<Rightarrow> json option \<Rightarrow> 'e outcome" where
  "callTool h query_analytics =
     registerTool (query_analytics_inputSchema (zod h)) (query_analytics_handler h)"
| "callTool h get_realtime_data =
     registerTool (get_realtime_data_inputSchema (zod h)) (get_realtime_data_handler h)"
| "callTool h get_traffic_sources =
     registerTool (preset_inputSchema (zod h)) (get_traffic_sources_handler h)"
| "callTool h get_user_demographics =
     registerTool (preset_inputSchema (zod h)) (get_user_demographics_handler h)"
| "callTool h get_page_performance =
     registerTool (preset_inputSchema (zod h)) (get_page_performance_handler h)"
| "callTool h get_conversion_data =
     registerTool (preset_inputSchema (zod h)) (get_conversion_data_handler h)"
| "callTool h get_custom_report =
     registerTool (get_custom_report_inputSchema (zod h)) (get_custom_report_handler h)"

section \<open>Observing a backend call\<close>

text \<open>What a recorded call carried, whichever of the two operations it went to.\<close>

fun call_property :: "backend_call \<Rightarrow> string option" where
  "call_property (RunReport r) = property r"
| "call_property (RunRealtimeReport r) = property r"

fun call_dimensions :: "backend_call \<Rightarrow> named list" where
  "call_dimensions (RunReport r) = dimensions r"
| "call_dimensions (RunRealtimeReport r) = dimensions r"

fun call_metrics :: "backend_call \<Rightarrow> named list" where
  "call_metrics (RunReport r) = metrics r"
| "call_metrics (RunRealtimeReport r) = metrics r"

text \<open>A realtime request has no \<open>dateRanges\<close> field.\<close>

fun call_dateRanges :: "backend_call \<Rightarrow> date_range list option" where
  "call_dateRanges (RunReport r) = Some (dateRanges r)"
| "call_dateRanges (RunRealtimeReport r) = None"

text \<open>What the client answers to a recorded call.\<close>

fun answer :: "('r, 'm, 'e) host \<Rightarrow> backend_call \<Rightarrow> 'e + 'r \<times> 'm" where
  "answer h (RunReport r) = runReport (analyticsDataClient h) r"
| "answer h (RunRealtimeReport r) = runRealtimeReport (analyticsDataClient h) r"

section \<open>A concrete host\<close>

text \<open>
  A host for concrete runs: the backend answers every request with the empty result
  object and two further tuple elements, and \<open>JSON.stringify\<close> is given on that object
  only (\<open>JSON.stringify({}, null, 2)\<close> is the text \<open>{}\<close>).
\<close>

definition example_host :: "process_env \<Rightarrow> zod_version \<Rightarrow> (json, json list, string) host" where
  "example_host e ver =
     \<lparr>env = e,
      analyticsDataClient =
        \<lparr>runReport = (\<lambda>req. Inr (JObj [], [JNull, JNull])),
         runRealtimeReport = (\<lambda>req. Inr (JObj [], [JNull, JNull]))\<rparr>,
      JSON_stringify = (\<lambda>obj replacer indent.
         if obj = JObj [] then Inr ''{}'' else Inl ''not modelled''),
      zod = ver\<rparr>"

definition env_with_default :: process_env where
  "env_with_default = \<lparr>GA4_PROPERTY_ID = Some ''123456'', GA_PROPERTY_ID = None\<rparr>"

definition env_without_default :: process_env where
  "env_without_default = \<lparr>GA4_PROPERTY_ID = None, GA_PROPERTY_ID = None\<rparr>"

text \<open>The preset table of the specification (section 4.1), by tool: dimensions, metrics.\<close>

fun spec_preset_table :: "tool \<Rightarrow> (string list \<times> string list) option" where
  "spec_preset_table get_traffic_sources = Some ([''source'', ''medium''], [''sessions''])"
| "spec_preset_table get_user_demographics = Some ([''country'', ''city''], [''activeUsers''])"
| "spec_preset_table get_page_performance =
     Some ([''pagePath''], [''screenPageViews'', ''averageSessionDuration''])"
| "spec_preset_table get_conversion_data = Some ([''eventName''], [''eventCount''])"
| "spec_preset_table query_analytics = None"
| "spec_preset_table get_realtime_data = None"
| "spec_preset_table get_custom_report = None"

section \<open>Well-formed arguments\<close>

text \<open>
  What the declared input schemas accept, as a condition on the arguments object alone
  (the \<open>z.any()\<close> fields accept every value and put no condition).
\<close>

definition is_string :: "json option \<Rightarrow> bool" where
  "is_string v = (case v of Some (JStr s) \<Rightarrow> True | _ \<Rightarrow> False)"

definition is_array_of :: "(json option \<Rightarrow> bool) \<Rightarrow> json option \<Rightarrow> bool" where
  "is_array_of P v = (case v of Some (JArr xs) \<Rightarrow> list_all (\<lambda>x. P (Some x)) xs | _ \<Rightarrow> False)"

definition is_nonempty_array_of :: "(json option \<Rightarrow> bool) \<Rightarrow> json option \<Rightarrow> bool" where
  "is_nonempty_array_of P v =
     (case v of Some (JArr xs) \<Rightarrow> xs \<noteq> [] \<and> list_all (\<lambda>x. P (Some x)) xs | _ \<Rightarrow> False)"

definition absent_or :: "(json option \<Rightarrow> bool) \<Rightarrow> json option \<Rightarrow> bool" where
  "absent_or P v = (case v of None \<Rightarrow> True | Some x \<Rightarrow> P v)"

definition is_dateRange :: "json option \<Rightarrow> bool" where
  "is_dateRange v =
     (case v of
        Some (JObj fs) \<Rightarrow> is_string (field fs ''startDate'') \<and> is_string (field fs ''endDate'')
      | _ \<Rightarrow> False)"

definition is_limit :: "zod_version \<Rightarrow> json option \<Rightarrow> bool" where
  "is_limit ver v = (case v of Some (JNum r) \<Rightarrow> is_int ver r \<and> 0 < r | _ \<Rightarrow> False)"

definition is_offset :: "zod_version \<Rightarrow> json option \<Rightarrow> bool" where
  "is_offset ver v = (case v of Some (JNum r) \<Rightarrow> is_int ver r \<and> 0 \<le> r | _ \<Rightarrow> False)"

definition report_arguments :: "zod_version \<Rightarrow> (string \<times> json) list \<Rightarrow> bool" where
  "report_arguments ver fs =
     (absent_or is_string (field fs ''propertyId'')
      \<and> is_nonempty_array_of is_dateRange (field fs ''dateRanges'')
      \<and> absent_or (is_array_of is_string) (field fs ''dimensions'')
      \<and> is_nonempty_array_of is_string (field fs ''metrics'')
      \<and> absent_or (is_limit ver) (field fs ''limit'')
      \<and> absent_or (is_offset ver) (field fs ''offset''))"

definition realtime_arguments :: "(string \<times> json) list \<Rightarrow> bool" where
  "realtime_arguments fs =
     (absent_or is_string (field fs ''propertyId'')
      \<and> absent_or (is_array_of is_string) (field fs ''dimensions'')
      \<and> absent_or (is_array_of is_string) (field fs ''metrics''))"

definition preset_arguments :: "(string \<times> json) list \<Rightarrow> bool" where
  "preset_arguments fs =
     (absent_or is_string (field fs ''propertyId'')
      \<and> absent_or is_string (field fs ''startDate'')
      \<and> absent_or is_string (field fs ''endDate''))"

fun well_formed :: "zod_version \<Rightarrow> tool \<Rightarrow> (string \<times> json) list \<Rightarrow> bool" where
  "well_formed ver query_analytics fs = report_arguments ver fs"
| "well_formed ver get_realtime_data fs = realtime_arguments fs"
| "well_formed ver get_traffic_sources fs = preset_arguments fs"
| "well_formed ver get_user_demographics fs = preset_arguments fs"
| "well_formed ver get_page_performance fs = preset_arguments fs"
| "well_formed ver get_conversion_data fs = preset_arguments fs"
| "well_formed ver get_custom_report fs = report_arguments ver fs"

text \<open>Arguments for concrete runs, by tool; none of them carries a \<open>propertyId\<close>.\<close>

definition example_report_arguments :: "(string \<times> json) list" where
  "example_report_arguments =
     [(''dimensions'', JArr [JStr ''city'', JStr ''country'', JStr ''city'']),
      (''metrics'', JArr [JStr ''sessions'', JStr ''activeUsers'']),
      (''dateRanges'', JArr [JObj [(''startDate'', JStr ''yesterday''),
                                   (''endDate'', JStr ''today'')]]),
      (''limit'', JNum 10)]"

definition example_realtime_arguments :: "(string \<times> json) list" where
  "example_realtime_arguments =
     [(''dimensions'', JArr [JStr ''city'']),
      (''metrics'', JArr [JStr ''activeUsers'', JStr ''screenPageViews''])]"

fun example_arguments :: "tool \<Rightarrow> (string \<times> json) list" where
  "example_arguments query_analytics = example_report_arguments"
| "example_arguments get_realtime_data = example_realtime_arguments"
| "example_arguments get_traffic_sources = []"
| "example_arguments get_user_demographics = []"
| "example_arguments get_page_performance = []"
| "example_arguments get_conversion_data = []"
| "example_arguments get_custom_report = example_report_arguments"

text \<open>The two hosts of the concrete runs.\<close>

definition host_with_default :: "(json, json list, string) host" where
  "host_with_default = example_host env_with_default Zod3"

definition host_without_default :: "(json, json list, string) host" where
  "host_without_default = example_host env_without_default Zod4"

section \<open>Auxiliary facts\<close>

lemma and_then_Inr: "and_then r f = Inr y \<longleftrightarrow> (\<exists>a. r = Inr a \<and> f a = Inr y)"
  by (cases r) (simp_all add: and_then_def)

lemma and_then_Inl_left: "r = Inl e \<Longrightarrow> and_then r f = Inl e"
  by (simp add: and_then_def)

lemma z_check_Inr: "z_check ok S v = Inr a \<longleftrightarrow> (S v = Inr a \<and> ok a)"
  by (auto simp: z_check_def and_then_Inr)

lemma z_nonempty_Inr: "z_nonempty S v = Inr xs \<longleftrightarrow> (S v = Inr xs \<and> xs \<noteq> [])"
  by (simp add: z_nonempty_def z_check_Inr)

lemma z_optional_string_Inr:
  "z_optional z_string v = Inr ovr \<longleftrightarrow>
     (v = None \<and> ovr = None) \<or> (\<exists>s. v = Some (JStr s) \<and> ovr = Some s)"
  by (auto simp: z_optional_def z_string_def and_then_Inr split: option.splits json.splits)

lemma z_array_items_strings: "z_array_items z_string (map JStr ds) = Inr ds"
  by (induction ds) (simp_all add: z_string_def and_then_def)

lemma z_array_strings: "z_array z_string (Some (JArr (map JStr ds))) = Inr ds"
  by (simp add: z_array_def z_array_items_strings)

lemma z_array_items_strings_Inr:
  "z_array_items z_string xs = Inr ds \<Longrightarrow> xs = map JStr ds"
  by (induction xs arbitrary: ds)
     (auto simp: z_string_def and_then_Inr split: json.splits)

lemma query_schema_Inr:
  assumes "query_analytics_inputSchema ver raw = Inr args"
  shows "\<exists>fs. raw = Some (JObj fs)
     \<and> z_optional z_string (field fs ''propertyId'') = Inr (overrides.propertyId args)
     \<and> z_nonempty (z_array z_dateRange) (field fs ''dateRanges'') = Inr (report_args.dateRanges args)
     \<and> z_optional (z_array z_string) (field fs ''dimensions'') = Inr (report_args.dimensions args)
     \<and> z_nonempty (z_array z_string) (field fs ''metrics'') = Inr (report_args.metrics args)"
  using assms
  by (auto simp: query_analytics_inputSchema_def and_then_Inr split: option.splits json.splits)

lemma custom_schema_Inr:
  assumes "get_custom_report_inputSchema ver raw = Inr args"
  shows "\<exists>fs. raw = Some (JObj fs)
     \<and> z_optional z_string (field fs ''propertyId'') = Inr (overrides.propertyId args)
     \<and> z_nonempty (z_array z_dateRange) (field fs ''dateRanges'') = Inr (report_args.dateRanges args)
     \<and> z_default_optional ver [] (z_array z_string) (field fs ''dimensions'') = Inr (report_args.dimensions args)
     \<and> z_nonempty (z_array z_string) (field fs ''metrics'') = Inr (report_args.metrics args)"
  using assms
  by (auto simp: get_custom_report_inputSchema_def and_then_Inr split: option.splits json.splits)

lemma realtime_schema_Inr:
  assumes "get_realtime_data_inputSchema ver raw = Inr args"
  shows "\<exists>fs. raw = Some (JObj fs)
     \<and> z_optional z_string (field fs ''propertyId'') = Inr (overrides.propertyId args)
     \<and> z_default_optional ver [''country''] (z_array z_string) (field fs ''dimensions'') = Inr (realtime_args.dimensions args)
     \<and> z_default_optional ver [''activeUsers''] (z_array z_string) (field fs ''metrics'') = Inr (realtime_args.metrics args)"
  using assms
  by (auto simp: get_realtime_data_inputSchema_def and_then_Inr split: option.splits json.splits)

lemma preset_schema_Inr:
  assumes "preset_inputSchema ver raw = Inr args"
  shows "\<exists>fs. raw = Some (JObj fs)
     \<and> z_optional z_string (field fs ''propertyId'') = Inr (overrides.propertyId args)
     \<and> z_default_optional ver ''7daysAgo'' z_string (field fs ''startDate'') = Inr (preset_args.startDate args)
     \<and> z_default_optional ver ''today'' z_string (field fs ''endDate'') = Inr (preset_args.endDate args)"
  using assms
  by (auto simp: preset_inputSchema_def and_then_Inr split: option.splits json.splits)

lemma buildProperty_overrides:
  "buildProperty e (Some a) = buildProperty e (Some \<lparr>propertyId = overrides.propertyId a\<rparr>)"
  by (simp add: buildProperty_def buildProperty_id_def)


lemma respond_not_validation: "respond h a \<noteq> Inl InputValidationError"
  by (auto simp: respond_def split: sum.splits prod.splits)

lemma respond_Inr:
  "respond h a = Inr out \<longleftrightarrow>
     (\<exists>R rest s. a = Inr (R, rest) \<and> JSON_stringify h R null 2 = Inr s
        \<and> out = \<lparr>content = [\<lparr>type = ''text'', text' = s\<rparr>]\<rparr>)"
  by (auto simp: respond_def toToolTextContent_def split: sum.splits prod.splits)

lemma registerTool_accepted:
  assumes "snd (registerTool S H raw) \<noteq> Inl InputValidationError"
  shows "\<exists>args. S raw = Inr args \<and> registerTool S H raw = H args"
  using assms by (cases "S raw") (simp_all add: registerTool_def)

lemma callTool_accepted:
  assumes "snd (callTool h t raw) \<noteq> Inl InputValidationError"
  shows "\<exists>fs ovr c. raw = Some (JObj fs)
     \<and> z_optional z_string (field fs ''propertyId'') = Inr ovr
     \<and> fst (callTool h t raw) = [c]
     \<and> call_property c = buildProperty (env h) (Some \<lparr>propertyId = ovr\<rparr>)"
proof (cases t)
  case query_analytics
  with assms obtain args where a: "query_analytics_inputSchema (zod h) raw = Inr args"
    and r: "callTool h t raw = query_analytics_handler h args"
    using registerTool_accepted by fastforce
  from query_schema_Inr [OF a] r show ?thesis
    by (auto simp: query_analytics_handler_def report_request_of_def Let_def
        buildProperty_overrides [of _ args])
next
  case get_custom_report
  with assms obtain args where a: "get_custom_report_inputSchema (zod h) raw = Inr args"
    and r: "callTool h t raw = get_custom_report_handler h args"
    using registerTool_accepted by fastforce
  from custom_schema_Inr [OF a] r show ?thesis
    by (auto simp: get_custom_report_handler_def report_request_of_def Let_def
        buildProperty_overrides [of _ args])
next
  case get_realtime_data
  with assms obtain args where a: "get_realtime_data_inputSchema (zod h) raw = Inr args"
    and r: "callTool h t raw = get_realtime_data_handler h args"
    using registerTool_accepted by fastforce
  from realtime_schema_Inr [OF a] r show ?thesis
    by (auto simp: get_realtime_data_handler_def realtime_request_of_def Let_def
        buildProperty_overrides [of _ args])
next
  case get_traffic_sources
  with assms obtain args where a: "preset_inputSchema (zod h) raw = Inr args"
    and r: "callTool h t raw = get_traffic_sources_handler h args"
    using registerTool_accepted by fastforce
  from preset_schema_Inr [OF a] r show ?thesis
    by (auto simp: get_traffic_sources_handler_def preset_request_of_def Let_def)
next
  case get_user_demographics
  with assms obtain args where a: "preset_inputSchema (zod h) raw = Inr args"
    and r: "callTool h t raw = get_user_demographics_handler h args"
    using registerTool_accepted by fastforce
  from preset_schema_Inr [OF a] r show ?thesis
    by (auto simp: get_user_demographics_handler_def preset_request_of_def Let_def)
next
  case get_page_performance
  with assms obtain args where a: "preset_inputSchema (zod h) raw = Inr args"
    and r: "callTool h t raw = get_page_performance_handler h args"
    using registerTool_accepted by fastforce
  from preset_schema_Inr [OF a] r show ?thesis
    by (auto simp: get_page_performance_handler_def preset_request_of_def Let_def)
next
  case get_conversion_data
  with assms obtain args where a: "preset_inputSchema (zod h) raw = Inr args"
    and r: "callTool h t raw = get_conversion_data_handler h args"
    using registerTool_accepted by fastforce
  from preset_schema_Inr [OF a] r show ?thesis
    by (auto simp: get_conversion_data_handler_def preset_request_of_def Let_def)
qed


lemma z_optional_strings_Inr:
  "z_optional (z_array z_string) v = Inr r \<longleftrightarrow>
     (v = None \<and> r = None) \<or> (\<exists>ds. v = Some (JArr (map JStr ds)) \<and> r = Some ds)"
  by (auto simp: z_optional_def z_array_def and_then_Inr z_array_items_strings
      dest: z_array_items_strings_Inr split: option.splits json.splits)

lemma z_default_optional_strings_Inr:
  "z_default_optional ver d (z_array z_string) v = Inr r \<longleftrightarrow>
     (v = None \<and> r = (case ver of Zod3 \<Rightarrow> None | Zod4 \<Rightarrow> Some d))
     \<or> (\<exists>ds. v = Some (JArr (map JStr ds)) \<and> r = Some ds)"
  by (auto simp: z_default_optional_def z_array_def and_then_Inr z_array_items_strings
      dest: z_array_items_strings_Inr split: option.splits json.splits zod_version.splits)

lemma z_default_optional_string_Inr:
  "z_default_optional ver d z_string v = Inr r \<longleftrightarrow>
     (v = None \<and> r = (case ver of Zod3 \<Rightarrow> None | Zod4 \<Rightarrow> Some d))
     \<or> (\<exists>s. v = Some (JStr s) \<and> r = Some s)"
  by (auto simp: z_default_optional_def z_string_def and_then_Inr
      split: option.splits json.splits zod_version.splits)

lemma z_nonempty_strings_Inr:
  "z_nonempty (z_array z_string) v = Inr ms \<longleftrightarrow> (v = Some (JArr (map JStr ms)) \<and> ms \<noteq> [])"
  by (auto simp: z_nonempty_Inr z_array_def z_array_items_strings
      dest: z_array_items_strings_Inr split: option.splits json.splits)

lemma callTool_cases:
  "callTool h t raw = ([], Inl InputValidationError)
   \<or> (\<exists>c. callTool h t raw = ([c], respond h (answer h c)))"
  by (cases t)
     (simp_all add: registerTool_def query_analytics_handler_def get_custom_report_handler_def
        get_realtime_data_handler_def get_traffic_sources_handler_def
        get_user_demographics_handler_def get_page_performance_handler_def
        get_conversion_data_handler_def Let_def split: sum.splits)

lemma report_tools_call:
  assumes t: "t = query_analytics \<or> t = get_custom_report"
    and acc: "snd (callTool h t raw) \<noteq> Inl InputValidationError"
  shows "\<exists>fs ms drs req. raw = Some (JObj fs)
     \<and> fst (callTool h t raw) = [RunReport req]
     \<and> field fs ''metrics'' = Some (JArr (map JStr ms)) \<and> ms \<noteq> []
     \<and> metrics req = map (\<lambda>n. \<lparr>name = n\<rparr>) ms
     \<and> z_array z_dateRange (field fs ''dateRanges'') = Inr drs \<and> drs \<noteq> []
     \<and> dateRanges req = drs
     \<and> ((field fs ''dimensions'' = None \<and> dimensions req = [])
        \<or> (\<exists>ds. field fs ''dimensions'' = Some (JArr (map JStr ds))
              \<and> dimensions req = map (\<lambda>n. \<lparr>name = n\<rparr>) ds))"
  using t
proof
  assume q: "t = query_analytics"
  with acc obtain args where a: "query_analytics_inputSchema (zod h) raw = Inr args"
    and r: "callTool h t raw = query_analytics_handler h args"
    using registerTool_accepted by fastforce
  from query_schema_Inr [OF a] obtain fs where raw: "raw = Some (JObj fs)"
    and d: "z_nonempty (z_array z_dateRange) (field fs ''dateRanges'') = Inr (report_args.dateRanges args)"
    and x: "z_optional (z_array z_string) (field fs ''dimensions'') = Inr (report_args.dimensions args)"
    and m: "z_nonempty (z_array z_string) (field fs ''metrics'') = Inr (report_args.metrics args)"
    by blast
  from m have m': "field fs ''metrics'' = Some (JArr (map JStr (report_args.metrics args)))"
      "report_args.metrics args \<noteq> []"
    by (simp_all add: z_nonempty_strings_Inr)
  from d have d': "z_array z_dateRange (field fs ''dateRanges'') = Inr (report_args.dateRanges args)"
      "report_args.dateRanges args \<noteq> []"
    by (simp_all add: z_nonempty_Inr)
  from x have x': "(field fs ''dimensions'' = None
        \<and> or_array (report_args.dimensions args) [] = [])
      \<or> (\<exists>ds. field fs ''dimensions'' = Some (JArr (map JStr ds))
            \<and> or_array (report_args.dimensions args) [] = ds)"
    by (auto simp: z_optional_strings_Inr or_array_def)
  from raw r m' d' x' show ?thesis
    by (auto simp: query_analytics_handler_def report_request_of_def Let_def)
next
  assume q: "t = get_custom_report"
  with acc obtain args where a: "get_custom_report_inputSchema (zod h) raw = Inr args"
    and r: "callTool h t raw = get_custom_report_handler h args"
    using registerTool_accepted by fastforce
  from custom_schema_Inr [OF a] obtain fs where raw: "raw = Some (JObj fs)"
    and d: "z_nonempty (z_array z_dateRange) (field fs ''dateRanges'') = Inr (report_args.dateRanges args)"
    and x: "z_default_optional (zod h) [] (z_array z_string) (field fs ''dimensions'') = Inr (report_args.dimensions args)"
    and m: "z_nonempty (z_array z_string) (field fs ''metrics'') = Inr (report_args.metrics args)"
    by blast
  from m have m': "field fs ''metrics'' = Some (JArr (map JStr (report_args.metrics args)))"
      "report_args.metrics args \<noteq> []"
    by (simp_all add: z_nonempty_strings_Inr)
  from d have d': "z_array z_dateRange (field fs ''dateRanges'') = Inr (report_args.dateRanges args)"
      "report_args.dateRanges args \<noteq> []"
    by (simp_all add: z_nonempty_Inr)
  from x have x': "(field fs ''dimensions'' = None
        \<and> or_array (report_args.dimensions args) [] = [])
      \<or> (\<exists>ds. field fs ''dimensions'' = Some (JArr (map JStr ds))
            \<and> or_array (report_args.dimensions args) [] = ds)"
    by (auto simp: z_default_optional_strings_Inr or_array_def split: zod_version.splits)
  from raw r m' d' x' show ?thesis
    by (auto simp: get_custom_report_handler_def report_request_of_def Let_def)
qed

lemma realtime_call:
  assumes acc: "snd (callTool h get_realtime_data raw) \<noteq> Inl InputValidationError"
  shows "\<exists>fs req. raw = Some (JObj fs)
     \<and> fst (callTool h get_realtime_data raw) = [RunRealtimeReport req]
     \<and> ((field fs ''dimensions'' = None \<and> dimensions req = [\<lparr>name = ''country''\<rparr>])
        \<or> (\<exists>ds. field fs ''dimensions'' = Some (JArr (map JStr ds))
              \<and> dimensions req = map (\<lambda>n. \<lparr>name = n\<rparr>) ds))
     \<and> ((field fs ''metrics'' = None \<and> metrics req = [\<lparr>name = ''activeUsers''\<rparr>])
        \<or> (\<exists>ms. field fs ''metrics'' = Some (JArr (map JStr ms))
              \<and> metrics req = map (\<lambda>n. \<lparr>name = n\<rparr>) ms))"
proof -
  from acc obtain args where a: "get_realtime_data_inputSchema (zod h) raw = Inr args"
    and r: "callTool h get_realtime_data raw = get_realtime_data_handler h args"
    using registerTool_accepted by fastforce
  from realtime_schema_Inr [OF a] r show ?thesis
    by (auto simp: get_realtime_data_handler_def realtime_request_of_def Let_def or_array_def
        z_default_optional_strings_Inr split: zod_version.splits)
qed

lemma preset_request_dates:
  assumes "z_default_optional ver ''7daysAgo'' z_string (field fs ''startDate'') = Inr (preset_args.startDate args)"
    and "z_default_optional ver ''today'' z_string (field fs ''endDate'') = Inr (preset_args.endDate args)"
  shows "\<exists>s e. dateRanges (preset_request_of dims mets env0 args)
            = [\<lparr>date_range.startDate = s, date_range.endDate = e\<rparr>]
     \<and> ((field fs ''startDate'' = None \<and> s = ''7daysAgo'') \<or> field fs ''startDate'' = Some (JStr s))
     \<and> ((field fs ''endDate'' = None \<and> e = ''today'') \<or> field fs ''endDate'' = Some (JStr e))"
  using assms
  by (auto simp: preset_request_of_def Let_def param_default_def z_default_optional_string_Inr
      split: zod_version.splits)

lemma preset_request_lists:
  "dimensions (preset_request_of dims mets env0 args) = dims"
  "metrics (preset_request_of dims mets env0 args) = mets"
  by (simp_all add: preset_request_of_def Let_def)

lemma preset_tool_shape:
  assumes "spec_preset_table t = Some (ds, ms)"
  shows "callTool h t raw =
     registerTool (preset_inputSchema (zod h))
       (\<lambda>args. ([RunReport (preset_request_of (map (\<lambda>n. \<lparr>name = n\<rparr>) ds)
                    (map (\<lambda>n. \<lparr>name = n\<rparr>) ms) (env h) args)],
                respond h (runReport (analyticsDataClient h)
                  (preset_request_of (map (\<lambda>n. \<lparr>name = n\<rparr>) ds)
                    (map (\<lambda>n. \<lparr>name = n\<rparr>) ms) (env h) args)))) raw"
  using assms
  by (cases t)
     (auto simp: registerTool_def get_traffic_sources_handler_def
        get_user_demographics_handler_def get_page_performance_handler_def
        get_conversion_data_handler_def Let_def split: sum.splits)

lemma preset_call:
  assumes t: "spec_preset_table t = Some (ds, ms)"
    and acc: "snd (callTool h t raw) \<noteq> Inl InputValidationError"
  shows "\<exists>fs req s e. raw = Some (JObj fs)
     \<and> fst (callTool h t raw) = [RunReport req]
     \<and> dimensions req = map (\<lambda>n. \<lparr>name = n\<rparr>) ds
     \<and> metrics req = map (\<lambda>n. \<lparr>name = n\<rparr>) ms
     \<and> dateRanges req = [\<lparr>date_range.startDate = s, date_range.endDate = e\<rparr>]
     \<and> ((field fs ''startDate'' = None \<and> s = ''7daysAgo'') \<or> field fs ''startDate'' = Some (JStr s))
     \<and> ((field fs ''endDate'' = None \<and> e = ''today'') \<or> field fs ''endDate'' = Some (JStr e))"
proof -
  note shape = preset_tool_shape [OF t, of h raw]
  note acc' = acc [unfolded shape]
  from registerTool_accepted [OF acc'] obtain args
    where a: "preset_inputSchema (zod h) raw = Inr args"
      and r: "fst (callTool h t raw) =
        [RunReport (preset_request_of (map (\<lambda>n. \<lparr>name = n\<rparr>) ds)
           (map (\<lambda>n. \<lparr>name = n\<rparr>) ms) (env h) args)]"
    by (auto simp: shape)
  from preset_schema_Inr [OF a] obtain fs where raw: "raw = Some (JObj fs)"
    and s: "z_default_optional (zod h) ''7daysAgo'' z_string (field fs ''startDate'') = Inr (preset_args.startDate args)"
    and e: "z_default_optional (zod h) ''today'' z_string (field fs ''endDate'') = Inr (preset_args.endDate args)"
    by blast
  from preset_request_dates [OF s e] raw r show ?thesis
    by (auto simp: preset_request_lists)
qed

subsection \<open>The schemas accept exactly the well-formed arguments\<close>

lemma z_string_ok: "(\<exists>a. z_string v = Inr a) \<longleftrightarrow> is_string v"
  by (auto simp: z_string_def is_string_def split: option.splits json.splits)

lemma z_array_items_ok:
  assumes "\<And>v. (\<exists>a. S v = Inr a) \<longleftrightarrow> P v"
  shows "(\<exists>ys. z_array_items S xs = Inr ys) \<longleftrightarrow> list_all (\<lambda>x. P (Some x)) xs"
proof (induction xs)
  case Nil
  show ?case by simp
next
  case (Cons x xs)
  from assms [of "Some x"] Cons show ?case
    by (auto simp: and_then_Inr)
qed

lemma z_array_ok:
  assumes "\<And>v. (\<exists>a. S v = Inr a) \<longleftrightarrow> P v"
  shows "(\<exists>ys. z_array S v = Inr ys) \<longleftrightarrow> is_array_of P v"
  using z_array_items_ok [of S P, OF assms]
  by (auto simp: z_array_def is_array_of_def split: option.splits json.splits)

lemma z_array_items_Nil: "z_array_items S xs = Inr [] \<longleftrightarrow> xs = []"
  by (cases xs) (auto simp: and_then_Inr)

lemma z_nonempty_array_ok:
  assumes "\<And>v. (\<exists>a. S v = Inr a) \<longleftrightarrow> P v"
  shows "(\<exists>ys. z_nonempty (z_array S) v = Inr ys) \<longleftrightarrow> is_nonempty_array_of P v"
proof (cases v)
  case None
  then show ?thesis
    by (simp add: z_nonempty_Inr z_array_def is_nonempty_array_of_def)
next
  case (Some j)
  show ?thesis
  proof (cases j)
    case (JArr xs)
    from z_array_items_ok [of S P xs, OF assms] Some JArr show ?thesis
      by (auto simp: z_nonempty_Inr z_array_def is_nonempty_array_of_def z_array_items_Nil)
  qed (simp_all add: Some z_nonempty_Inr z_array_def is_nonempty_array_of_def)
qed

lemma z_optional_ok:
  assumes "\<And>v. (\<exists>a. S v = Inr a) \<longleftrightarrow> P v"
  shows "(\<exists>r. z_optional S v = Inr r) \<longleftrightarrow> absent_or P v"
  using assms [of v]
  by (cases v) (auto simp: z_optional_def absent_or_def and_then_Inr)

lemma z_default_optional_ok:
  assumes "\<And>v. (\<exists>a. S v = Inr a) \<longleftrightarrow> P v"
  shows "(\<exists>r. z_default_optional ver d S v = Inr r) \<longleftrightarrow> absent_or P v"
  using assms [of v]
  by (cases v)
     (auto simp: z_default_optional_def absent_or_def and_then_Inr split: zod_version.splits)

lemma z_dateRange_ok: "(\<exists>a. z_dateRange v = Inr a) \<longleftrightarrow> is_dateRange v"
  by (auto simp: z_dateRange_def is_dateRange_def and_then_Inr z_string_ok [symmetric]
      split: option.splits json.splits)

lemma z_limit_ok:
  "(\<exists>a. z_positive (z_int ver z_number) v = Inr a) \<longleftrightarrow> is_limit ver v"
  by (auto simp: z_positive_def z_int_def z_check_Inr z_number_def is_limit_def
      split: option.splits json.splits)

lemma z_offset_ok:
  "(\<exists>a. z_nonnegative (z_int ver z_number) v = Inr a) \<longleftrightarrow> is_offset ver v"
  by (auto simp: z_nonnegative_def z_int_def z_check_Inr z_number_def is_offset_def
      split: option.splits json.splits)

lemmas field_ok =
  z_optional_ok [of z_string is_string, OF z_string_ok]
  z_default_optional_ok [of z_string is_string, OF z_string_ok]
  z_optional_ok [of "z_array z_string" "is_array_of is_string", OF z_array_ok, OF z_string_ok]
  z_default_optional_ok [of "z_array z_string" "is_array_of is_string", OF z_array_ok,
    OF z_string_ok]
  z_nonempty_array_ok [of z_string is_string, OF z_string_ok]
  z_nonempty_array_ok [of z_dateRange is_dateRange, OF z_dateRange_ok]
  z_optional_ok [of "z_positive (z_int ver z_number)" "is_limit ver", OF z_limit_ok]
  z_optional_ok [of "z_nonnegative (z_int ver z_number)" "is_offset ver", OF z_offset_ok]
  for ver


lemma query_schema_ok:
  "(\<exists>args. query_analytics_inputSchema ver (Some (JObj fs)) = Inr args)
     \<longleftrightarrow> report_arguments ver fs"
  unfolding report_arguments_def field_ok [symmetric]
  by (simp add: query_analytics_inputSchema_def and_then_Inr z_any_optional_def) blast

lemma custom_schema_ok:
  "(\<exists>args. get_custom_report_inputSchema ver (Some (JObj fs)) = Inr args)
     \<longleftrightarrow> report_arguments ver fs"
proof -
  have "report_arguments ver fs \<longleftrightarrow>
      (\<exists>r. z_optional z_string (field fs ''propertyId'') = Inr r)
      \<and> (\<exists>r. z_nonempty (z_array z_dateRange) (field fs ''dateRanges'') = Inr r)
      \<and> (\<exists>r. z_default_optional ver [] (z_array z_string) (field fs ''dimensions'') = Inr r)
      \<and> (\<exists>r. z_nonempty (z_array z_string) (field fs ''metrics'') = Inr r)
      \<and> (\<exists>r. z_optional (z_positive (z_int ver z_number)) (field fs ''limit'') = Inr r)
      \<and> (\<exists>r. z_optional (z_nonnegative (z_int ver z_number)) (field fs ''offset'') = Inr r)"
    by (simp add: report_arguments_def field_ok)
  then show ?thesis
    by (simp add: get_custom_report_inputSchema_def and_then_Inr z_any_optional_def) blast
qed

lemma realtime_schema_ok:
  "(\<exists>args. get_realtime_data_inputSchema ver (Some (JObj fs)) = Inr args)
     \<longleftrightarrow> realtime_arguments fs"
proof -
  have "realtime_arguments fs \<longleftrightarrow>
      (\<exists>r. z_optional z_string (field fs ''propertyId'') = Inr r)
      \<and> (\<exists>r. z_default_optional ver [''country''] (z_array z_string) (field fs ''dimensions'') = Inr r)
      \<and> (\<exists>r. z_default_optional ver [''activeUsers''] (z_array z_string) (field fs ''metrics'') = Inr r)"
    by (simp add: realtime_arguments_def field_ok)
  then show ?thesis
    by (simp add: get_realtime_data_inputSchema_def and_then_Inr) blast
qed

lemma preset_schema_ok:
  "(\<exists>args. preset_inputSchema ver (Some (JObj fs)) = Inr args) \<longleftrightarrow> preset_arguments fs"
proof -
  have "preset_arguments fs \<longleftrightarrow>
      (\<exists>r. z_optional z_string (field fs ''propertyId'') = Inr r)
      \<and> (\<exists>r. z_default_optional ver ''7daysAgo'' z_string (field fs ''startDate'') = Inr r)
      \<and> (\<exists>r. z_default_optional ver ''today'' z_string (field fs ''endDate'') = Inr r)"
    by (simp add: preset_arguments_def field_ok)
  then show ?thesis
    by (simp add: preset_inputSchema_def and_then_Inr) blast
qed

lemma registerTool_accepted_iff:
  assumes "\<And>args. snd (H args) \<noteq> Inl InputValidationError"
  shows "snd (registerTool S H raw) \<noteq> Inl InputValidationError \<longleftrightarrow> (\<exists>args. S raw = Inr args)"
  using assms by (cases "S raw") (simp_all add: registerTool_def)

lemma well_formed_accepted:
  "snd (callTool h t (Some (JObj fs))) \<noteq> Inl InputValidationError
     \<longleftrightarrow> well_formed (zod h) t fs"
  by (cases t)
     (simp_all add: registerTool_accepted_iff respond_not_validation
        query_analytics_handler_def get_custom_report_handler_def
        get_realtime_data_handler_def get_traffic_sources_handler_def
        get_user_demographics_handler_def get_page_performance_handler_def
        get_conversion_data_handler_def Let_def
        query_schema_ok custom_schema_ok realtime_schema_ok preset_schema_ok)

lemmas run_defs =
  field_def js_or_def or_array_def param_default_def default_propertyId_def
  buildProperty_id_def buildProperty_def and_then_def z_string_def z_number_def z_check_def
  is_int_def z_int_def z_positive_def z_nonnegative_def z_array_def z_nonempty_def
  z_optional_def z_default_optional_def z_any_optional_def z_dateRange_def
  query_analytics_inputSchema_def get_realtime_data_inputSchema_def preset_inputSchema_def
  get_custom_report_inputSchema_def toToolTextContent_def respond_def report_request_of_def
  realtime_request_of_def preset_request_of_def query_analytics_handler_def
  get_custom_report_handler_def get_realtime_data_handler_def get_traffic_sources_handler_def
  get_user_demographics_handler_def get_page_performance_handler_def
  get_conversion_data_handler_def registerTool_def example_host_def env_with_default_def
  env_without_default_def Let_def is_string_def is_array_of_def is_nonempty_array_of_def
  absent_or_def is_dateRange_def is_limit_def is_offset_def report_arguments_def
  realtime_arguments_def preset_arguments_def example_report_arguments_def
  example_realtime_arguments_def host_with_default_def host_without_default_def

section \<open>The claims\<close>

text \<open>
  Claim C1, as amended. When the arguments carry a non-empty \<open>propertyId\<close> string and
  the invocation is not rejected by validation, the identifier resolved by
  \<open>buildProperty\<close> is the override, whatever the default captured at startup is, and
  the single backend call is made for \<open>properties/<override>\<close>. (The claim as written
  also covers the empty string, for which it fails: see the counterexample.)
\<close>

theorem override_resolves_to_override:
  assumes "field fs ''propertyId'' = Some (JStr ovr)"
    and "ovr \<noteq> []"
    and "snd (callTool h t (Some (JObj fs))) \<noteq> Inl InputValidationError"
  shows "buildProperty_id (env h) (Some \<lparr>propertyId = Some ovr\<rparr>) = Some ovr
     \<and> (\<exists>c. fst (callTool h t (Some (JObj fs))) = [c]
            \<and> call_property c = Some (''properties/'' @ ovr))"
proof -
  from callTool_accepted [OF assms(3)] obtain o' c
    where p: "z_optional z_string (field fs ''propertyId'') = Inr o'"
      and c: "fst (callTool h t (Some (JObj fs))) = [c]"
      and b: "call_property c = buildProperty (env h) (Some \<lparr>propertyId = o'\<rparr>)"
    by auto
  from p assms(1) have "o' = Some ovr"
    by (simp add: z_optional_string_Inr)
  with assms(2) b c show ?thesis
    by (simp add: buildProperty_def buildProperty_id_def js_or_def)
qed

text \<open>The theorem at a concrete invocation of \<open>get_traffic_sources\<close>.\<close>

theorem override_resolves_to_override_witness:
  "field [(''propertyId'', JStr ''987'')] ''propertyId'' = Some (JStr ''987'')
   \<and> ''987'' \<noteq> []
   \<and> snd (callTool (example_host env_with_default Zod3) get_traffic_sources
             (Some (JObj [(''propertyId'', JStr ''987'')]))) \<noteq> Inl InputValidationError
   \<and> buildProperty_id (env (example_host env_with_default Zod3))
        (Some \<lparr>propertyId = Some ''987''\<rparr>) = Some ''987''
   \<and> (\<exists>c. fst (callTool (example_host env_with_default Zod3) get_traffic_sources
                  (Some (JObj [(''propertyId'', JStr ''987'')]))) = [c]
          \<and> call_property c = Some (''properties/'' @ ''987''))"
proof -
  have f: "field [(''propertyId'', JStr ''987'')] ''propertyId'' = Some (JStr ''987'')"
    by (simp add: field_def)
  have n: "''987'' \<noteq> []" by simp
  have a: "snd (callTool (example_host env_with_default Zod3) get_traffic_sources
             (Some (JObj [(''propertyId'', JStr ''987'')]))) \<noteq> Inl InputValidationError"
    by (simp add: run_defs)
  from override_resolves_to_override [OF f n a] f n a show ?thesis
    by blast
qed

text \<open>
  Claim C1 as written fails: the override \<open>""\<close> is supplied, the schema accepts it,
  and the identifier resolved is the default \<open>123456\<close>, not the override.
\<close>

theorem empty_override_resolves_to_default:
  "field [(''propertyId'', JStr '''')] ''propertyId'' = Some (JStr '''')
   \<and> default_propertyId (env (example_host env_with_default Zod3)) = Some ''123456''
   \<and> buildProperty_id (env (example_host env_with_default Zod3))
        (Some \<lparr>propertyId = Some ''''\<rparr>) = Some ''123456''
   \<and> map call_property
        (fst (callTool (example_host env_with_default Zod3) get_traffic_sources
                (Some (JObj [(''propertyId'', JStr '''')]))))
      = [Some ''properties/123456'']"
  by (simp add: run_defs)

text \<open>
  Claim C2 (every request carries a non-empty metric list). The realtime schema has no
  \<open>nonempty()\<close> on \<open>metrics\<close>, unlike \<open>query_analytics\<close> and \<open>get_custom_report\<close>, and
  the handler's fallback \<open>args.metrics || ["activeUsers"]\<close> keeps an empty array: the
  arguments \<open>{ metrics: [] }\<close> are accepted and the realtime request is sent with no
  metric at all, under either version of the schema library.
\<close>

theorem realtime_accepts_empty_metrics:
  "map call_metrics
     (fst (callTool (example_host env_with_default Zod3) get_realtime_data
             (Some (JObj [(''metrics'', JArr [])])))) = [[]]
   \<and> map call_metrics
     (fst (callTool (example_host env_with_default Zod4) get_realtime_data
             (Some (JObj [(''metrics'', JArr [])])))) = [[]]"
  by (simp add: run_defs)

text \<open>
  The part of the invariant that holds on every path: each tool other than the realtime
  one sends \<open>runReport\<close> a non-empty metric list and a non-empty date-range list.
\<close>

lemma reports_carry_metrics_and_dates:
  assumes "t \<noteq> get_realtime_data"
    and "snd (callTool h t raw) \<noteq> Inl InputValidationError"
  shows "\<exists>req. fst (callTool h t raw) = [RunReport req]
     \<and> metrics req \<noteq> [] \<and> dateRanges req \<noteq> []"
proof (cases "spec_preset_table t")
  case None
  with assms(1) have "t = query_analytics \<or> t = get_custom_report"
    by (cases t) simp_all
  from report_tools_call [OF this assms(2)] show ?thesis
    by auto
next
  case (Some p)
  then obtain ds ms where p: "spec_preset_table t = Some (ds, ms)"
    by (cases p) simp
  then have "ms \<noteq> []"
    by (cases t) auto
  with preset_call [OF p assms(2)] show ?thesis
    by auto
qed

text \<open>
  Claim C3. When \<open>query_analytics\<close> or \<open>get_custom_report\<close> is called with an empty
  \<open>metrics\<close> list, the invocation is rejected by validation: the result is the
  input-validation failure and the list of backend calls is empty, whatever the other
  arguments, the host and the backend are.
\<close>

theorem empty_metrics_rejected:
  assumes "t = query_analytics \<or> t = get_custom_report"
    and "field fs ''metrics'' = Some (JArr [])"
  shows "callTool h t (Some (JObj fs)) = ([], Inl InputValidationError)"
proof (rule ccontr)
  assume n: "callTool h t (Some (JObj fs)) \<noteq> ([], Inl InputValidationError)"
  with callTool_cases [of h t "Some (JObj fs)"]
  have "snd (callTool h t (Some (JObj fs))) \<noteq> Inl InputValidationError"
    by (auto simp: respond_not_validation)
  from report_tools_call [OF assms(1) this] assms(2) show False
    by auto
qed

text \<open>The theorem at a \<open>get_custom_report\<close> invocation whose other arguments are valid.\<close>

theorem empty_metrics_rejected_witness:
  "(get_custom_report = query_analytics \<or> get_custom_report = get_custom_report)
   \<and> field [(''metrics'', JArr []),
             (''dateRanges'', JArr [JObj [(''startDate'', JStr ''yesterday''),
                                          (''endDate'', JStr ''today'')]])]
        ''metrics'' = Some (JArr [])
   \<and> callTool (example_host env_with_default Zod3) get_custom_report
        (Some (JObj [(''metrics'', JArr []),
             (''dateRanges'', JArr [JObj [(''startDate'', JStr ''yesterday''),
                                          (''endDate'', JStr ''today'')]])]))
      = ([], Inl InputValidationError)"
proof -
  have t: "get_custom_report = query_analytics \<or> get_custom_report = get_custom_report"
    by simp
  have f: "field [(''metrics'', JArr []),
             (''dateRanges'', JArr [JObj [(''startDate'', JStr ''yesterday''),
                                          (''endDate'', JStr ''today'')]])]
        ''metrics'' = Some (JArr [])"
    by (simp add: field_def)
  from empty_metrics_rejected [OF t f] t f show ?thesis
    by blast
qed

text \<open>
  Claim C4. An invocation of any tool succeeds with output \<open>out\<close> exactly when it made
  one backend call, the backend answered it with a tuple whose first element is \<open>R\<close>,
  \<open>JSON.stringify(R, null, 2)\<close> returned a text \<open>s\<close>, and \<open>out\<close> is the envelope with
  the single block \<open>{ type: "text", text: s }\<close>. The rest of the tuple does not occur
  in the output, and nothing but \<open>JSON.stringify\<close> is applied to \<open>R\<close>.
\<close>

theorem output_is_stringified_result:
  "snd (callTool h t raw) = Inr out \<longleftrightarrow>
     (\<exists>c R rest s. fst (callTool h t raw) = [c]
        \<and> answer h c = Inr (R, rest)
        \<and> JSON_stringify h R null 2 = Inr s
        \<and> out = \<lparr>content = [\<lparr>type = ''text'', text' = s\<rparr>]\<rparr>)"
proof -
  from callTool_cases [of h t raw] show ?thesis
  proof
    assume "callTool h t raw = ([], Inl InputValidationError)"
    then show ?thesis by simp
  next
    assume "\<exists>c. callTool h t raw = ([c], respond h (answer h c))"
    then obtain c where "callTool h t raw = ([c], respond h (answer h c))" ..
    then show ?thesis by (simp add: respond_Inr)
  qed
qed

text \<open>
  The theorem from right to left at a \<open>get_conversion_data\<close> invocation, where the
  backend returns the empty object.
\<close>

theorem output_is_stringified_result_witness:
  "snd (callTool (example_host env_with_default Zod3) get_conversion_data (Some (JObj [])))
     = Inr \<lparr>content = [\<lparr>type = ''text'', text' = ''{}''\<rparr>]\<rparr>"
  by (rule iffD2 [OF output_is_stringified_result]) (simp add: run_defs)


text \<open>
  Claim C5. With no \<open>propertyId\<close> in the arguments and no default captured at startup,
  the identifier resolved by \<open>buildProperty\<close> is \<open>undefined\<close>; every tool, on
  arguments that are otherwise well formed, makes its backend call with an \<open>undefined\<close>
  property, and its result is what the backend's answer gives: nothing fails locally
  before the call.
\<close>

theorem no_override_no_default_undefined:
  assumes "field fs ''propertyId'' = None"
    and "default_propertyId (env h) = None"
    and "well_formed (zod h) t fs"
  shows "buildProperty_id (env h) (Some \<lparr>propertyId = None\<rparr>) = None
     \<and> (\<exists>c. callTool h t (Some (JObj fs)) = ([c], respond h (answer h c))
            \<and> call_property c = None)"
proof -
  from assms(3) have acc: "snd (callTool h t (Some (JObj fs))) \<noteq> Inl InputValidationError"
    by (simp add: well_formed_accepted)
  from callTool_accepted [OF acc] obtain o' c
    where p: "z_optional z_string (field fs ''propertyId'') = Inr o'"
      and c: "fst (callTool h t (Some (JObj fs))) = [c]"
      and b: "call_property c = buildProperty (env h) (Some \<lparr>propertyId = o'\<rparr>)"
    by auto
  from p assms(1) have "o' = None"
    by (simp add: z_optional_string_Inr)
  with assms(2) b have "call_property c = None"
      and "buildProperty_id (env h) (Some \<lparr>propertyId = None\<rparr>) = None"
    by (simp_all add: buildProperty_def buildProperty_id_def js_or_def)
  moreover from callTool_cases [of h t "Some (JObj fs)"] c
  have "callTool h t (Some (JObj fs)) = ([c], respond h (answer h c))"
    by auto
  ultimately show ?thesis by simp
qed

text \<open>
  The theorem at one invocation of each of the seven tools, on a host without a default:
  every one of them makes its call.
\<close>

theorem no_override_no_default_undefined_witness:
  "default_propertyId (env host_without_default) = None
   \<and> buildProperty_id (env host_without_default) (Some \<lparr>propertyId = None\<rparr>) = None
   \<and> field (example_arguments query_analytics) ''propertyId'' = None
   \<and> well_formed (zod host_without_default) query_analytics (example_arguments query_analytics)
   \<and> (\<exists>c. callTool host_without_default query_analytics (Some (JObj (example_arguments query_analytics)))
            = ([c], respond host_without_default (answer host_without_default c))
          \<and> call_property c = None)
   \<and> field (example_arguments get_realtime_data) ''propertyId'' = None
   \<and> well_formed (zod host_without_default) get_realtime_data (example_arguments get_realtime_data)
   \<and> (\<exists>c. callTool host_without_default get_realtime_data (Some (JObj (example_arguments get_realtime_data)))
            = ([c], respond host_without_default (answer host_without_default c))
          \<and> call_property c = None)
   \<and> field (example_arguments get_traffic_sources) ''propertyId'' = None
   \<and> well_formed (zod host_without_default) get_traffic_sources (example_arguments get_traffic_sources)
   \<and> (\<exists>c. callTool host_without_default get_traffic_sources (Some (JObj (example_arguments get_traffic_sources)))
            = ([c], respond host_without_default (answer host_without_default c))
          \<and> call_property c = None)
   \<and> field (example_arguments get_user_demographics) ''propertyId'' = None
   \<and> well_formed (zod host_without_default) get_user_demographics (example_arguments get_user_demographics)
   \<and> (\<exists>c. callTool host_without_default get_user_demographics (Some (JObj (example_arguments get_user_demographics)))
            = ([c], respond host_without_default (answer host_without_default c))
          \<and> call_property c = None)
   \<and> field (example_arguments get_page_performance) ''propertyId'' = None
   \<and> well_formed (zod host_without_default) get_page_performance (example_arguments get_page_performance)
   \<and> (\<exists>c. callTool host_without_default get_page_performance (Some (JObj (example_arguments get_page_performance)))
            = ([c], respond host_without_default (answer host_without_default c))
          \<and> call_property c = None)
   \<and> field (example_arguments get_conversion_data) ''propertyId'' = None
   \<and> well_formed (zod host_without_default) get_conversion_data (example_arguments get_conversion_data)
   \<and> (\<exists>c. callTool host_without_default get_conversion_data (Some (JObj (example_arguments get_conversion_data)))
            = ([c], respond host_without_default (answer host_without_default c))
          \<and> call_property c = None)
   \<and> field (example_arguments get_custom_report) ''propertyId'' = None
   \<and> well_formed (zod host_without_default) get_custom_report (example_arguments get_custom_report)
   \<and> (\<exists>c. callTool host_without_default get_custom_report (Some (JObj (example_arguments get_custom_report)))
            = ([c], respond host_without_default (answer host_without_default c))
          \<and> call_property c = None)"
proof -
  have d: "default_propertyId (env host_without_default) = None"
    by (simp add: run_defs)
  have f0: "field (example_arguments query_analytics) ''propertyId'' = None"
    by (simp add: run_defs)
  have w0: "well_formed (zod host_without_default) query_analytics (example_arguments query_analytics)"
    by (simp add: run_defs)
  note r0 = no_override_no_default_undefined [OF f0 d w0]
  have f1: "field (example_arguments get_realtime_data) ''propertyId'' = None"
    by (simp add: run_defs)
  have w1: "well_formed (zod host_without_default) get_realtime_data (example_arguments get_realtime_data)"
    by (simp add: run_defs)
  note r1 = no_override_no_default_undefined [OF f1 d w1]
  have f2: "field (example_arguments get_traffic_sources) ''propertyId'' = None"
    by (simp add: run_defs)
  have w2: "well_formed (zod host_without_default) get_traffic_sources (example_arguments get_traffic_sources)"
    by (simp add: run_defs)
  note r2 = no_override_no_default_undefined [OF f2 d w2]
  have f3: "field (example_arguments get_user_demographics) ''propertyId'' = None"
    by (simp add: run_defs)
  have w3: "well_formed (zod host_without_default) get_user_demographics (example_arguments get_user_demographics)"
    by (simp add: run_defs)
  note r3 = no_override_no_default_undefined [OF f3 d w3]
  have f4: "field (example_arguments get_page_performance) ''propertyId'' = None"
    by (simp add: run_defs)
  have w4: "well_formed (zod host_without_default) get_page_performance (example_arguments get_page_performance)"
    by (simp add: run_defs)
  note r4 = no_override_no_default_undefined [OF f4 d w4]
  have f5: "field (example_arguments get_conversion_data) ''propertyId'' = None"
    by (simp add: run_defs)
  have w5: "well_formed (zod host_without_default) get_conversion_data (example_arguments get_conversion_data)"
    by (simp add: run_defs)
  note r5 = no_override_no_default_undefined [OF f5 d w5]
  have f6: "field (example_arguments get_custom_report) ''propertyId'' = None"
    by (simp add: run_defs)
  have w6: "well_formed (zod host_without_default) get_custom_report (example_arguments get_custom_report)"
    by (simp add: run_defs)
  note r6 = no_override_no_default_undefined [OF f6 d w6]
  from d f0 w0 r0 f1 w1 r1 f2 w2 r2 f3 w3 r3 f4 w4 r4 f5 w5 r5 f6 w6 r6 show ?thesis
    by blast
qed

text \<open>
  Claim C6. When \<open>get_realtime_data\<close> is invoked with neither a \<open>dimensions\<close> nor a
  \<open>metrics\<close> field, the realtime request carries the dimensions \<open>[{name: "country"}]\<close>
  and the metrics \<open>[{name: "activeUsers"}]\<close>.
\<close>

theorem realtime_defaults:
  assumes "field fs ''dimensions'' = None"
    and "field fs ''metrics'' = None"
    and "snd (callTool h get_realtime_data (Some (JObj fs))) \<noteq> Inl InputValidationError"
  shows "\<exists>req. fst (callTool h get_realtime_data (Some (JObj fs))) = [RunRealtimeReport req]
     \<and> dimensions req = [\<lparr>name = ''country''\<rparr>]
     \<and> metrics req = [\<lparr>name = ''activeUsers''\<rparr>]"
  using realtime_call [OF assms(3)] assms(1,2) by auto

text \<open>The theorem at an invocation that supplies a property identifier only.\<close>

theorem realtime_defaults_witness:
  "field [(''propertyId'', JStr ''42'')] ''dimensions'' = None
   \<and> field [(''propertyId'', JStr ''42'')] ''metrics'' = None
   \<and> snd (callTool (example_host env_without_default Zod3) get_realtime_data
            (Some (JObj [(''propertyId'', JStr ''42'')]))) \<noteq> Inl InputValidationError
   \<and> (\<exists>req. fst (callTool (example_host env_without_default Zod3) get_realtime_data
                   (Some (JObj [(''propertyId'', JStr ''42'')]))) = [RunRealtimeReport req]
          \<and> dimensions req = [\<lparr>name = ''country''\<rparr>]
          \<and> metrics req = [\<lparr>name = ''activeUsers''\<rparr>])"
proof -
  have d: "field [(''propertyId'', JStr ''42'')] ''dimensions'' = None"
    by (simp add: field_def)
  have m: "field [(''propertyId'', JStr ''42'')] ''metrics'' = None"
    by (simp add: field_def)
  have a: "snd (callTool (example_host env_without_default Zod3) get_realtime_data
            (Some (JObj [(''propertyId'', JStr ''42'')]))) \<noteq> Inl InputValidationError"
    by (simp add: run_defs)
  from realtime_defaults [OF d m a] d m a show ?thesis
    by blast
qed

text \<open>
  Claim C7. Each fixed-preset tool (traffic sources, user demographics, page
  performance, conversion data), called with neither \<open>startDate\<close> nor \<open>endDate\<close> and
  with \<open>propertyId\<close> absent or a string, makes one \<open>runReport\<close> call whose request has
  exactly one date range, \<open>{startDate: "7daysAgo", endDate: "today"}\<close>, together with
  the dimensions and metrics of its row of the preset table.
\<close>

theorem preset_defaults:
  assumes "spec_preset_table t = Some (ds, ms)"
    and "field fs ''startDate'' = None"
    and "field fs ''endDate'' = None"
    and "field fs ''propertyId'' = map_option JStr ovr"
  shows "\<exists>req. callTool h t (Some (JObj fs))
            = ([RunReport req], respond h (runReport (analyticsDataClient h) req))
     \<and> property req = buildProperty (env h) (Some \<lparr>propertyId = ovr\<rparr>)
     \<and> dateRanges req = [\<lparr>date_range.startDate = ''7daysAgo'', date_range.endDate = ''today''\<rparr>]
     \<and> dimensions req = map (\<lambda>n. \<lparr>name = n\<rparr>) ds
     \<and> metrics req = map (\<lambda>n. \<lparr>name = n\<rparr>) ms"
proof -
  from assms(2-4) have "preset_arguments fs"
    by (cases ovr) (simp_all add: preset_arguments_def absent_or_def is_string_def)
  with assms(1) have "well_formed (zod h) t fs"
    by (cases t) simp_all
  then have acc: "snd (callTool h t (Some (JObj fs))) \<noteq> Inl InputValidationError"
    by (simp add: well_formed_accepted)
  from preset_call [OF assms(1) acc] assms(2,3) obtain req
    where r: "fst (callTool h t (Some (JObj fs))) = [RunReport req]"
      and d: "dateRanges req
                = [\<lparr>date_range.startDate = ''7daysAgo'', date_range.endDate = ''today''\<rparr>]"
      and l: "dimensions req = map (\<lambda>n. \<lparr>name = n\<rparr>) ds" "metrics req = map (\<lambda>n. \<lparr>name = n\<rparr>) ms"
    by auto
  from callTool_accepted [OF acc] r obtain o'
    where p: "z_optional z_string (field fs ''propertyId'') = Inr o'"
      and b: "property req = buildProperty (env h) (Some \<lparr>propertyId = o'\<rparr>)"
    by auto
  from p assms(4) have "o' = ovr"
    by (cases ovr) (simp_all add: z_optional_string_Inr)
  moreover from callTool_cases [of h t "Some (JObj fs)"] r
  have "callTool h t (Some (JObj fs))
          = ([RunReport req], respond h (runReport (analyticsDataClient h) req))"
    by auto
  ultimately show ?thesis using b d l
    by simp
qed

text \<open>
  The theorem at an invocation with empty arguments of each of the four preset tools:
  every one of them makes its call, with its own lists.
\<close>

theorem preset_defaults_witness:
  "field [] ''startDate'' = None
   \<and> field [] ''endDate'' = None
   \<and> field [] ''propertyId'' = map_option JStr None
   \<and> spec_preset_table get_traffic_sources = Some ([''source'', ''medium''], [''sessions''])
   \<and> (\<exists>req. callTool host_with_default get_traffic_sources (Some (JObj []))
            = ([RunReport req], respond host_with_default (runReport (analyticsDataClient host_with_default) req))
          \<and> property req = Some ''properties/123456''
          \<and> dateRanges req
              = [\<lparr>date_range.startDate = ''7daysAgo'', date_range.endDate = ''today''\<rparr>]
          \<and> dimensions req = [\<lparr>name = ''source''\<rparr>, \<lparr>name = ''medium''\<rparr>]
          \<and> metrics req = [\<lparr>name = ''sessions''\<rparr>])
   \<and> spec_preset_table get_user_demographics = Some ([''country'', ''city''], [''activeUsers''])
   \<and> (\<exists>req. callTool host_with_default get_user_demographics (Some (JObj []))
            = ([RunReport req], respond host_with_default (runReport (analyticsDataClient host_with_default) req))
          \<and> property req = Some ''properties/123456''
          \<and> dateRanges req
              = [\<lparr>date_range.startDate = ''7daysAgo'', date_range.endDate = ''today''\<rparr>]
          \<and> dimensions req = [\<lparr>name = ''country''\<rparr>, \<lparr>name = ''city''\<rparr>]
          \<and> metrics req = [\<lparr>name = ''activeUsers''\<rparr>])
   \<and> spec_preset_table get_page_performance = Some ([''pagePath''], [''screenPageViews'', ''averageSessionDuration''])
   \<and> (\<exists>req. callTool host_with_default get_page_performance (Some (JObj []))
            = ([RunReport req], respond host_with_default (runReport (analyticsDataClient host_with_default) req))
          \<and> property req = Some ''properties/123456''
          \<and> dateRanges req
              = [\<lparr>date_range.startDate = ''7daysAgo'', date_range.endDate = ''today''\<rparr>]
          \<and> dimensions req = [\<lparr>name = ''pagePath''\<rparr>]
          \<and> metrics req = [\<lparr>name = ''screenPageViews''\<rparr>, \<lparr>name = ''averageSessionDuration''\<rparr>])
   \<and> spec_preset_table get_conversion_data = Some ([''eventName''], [''eventCount''])
   \<and> (\<exists>req. callTool host_with_default get_conversion_data (Some (JObj []))
            = ([RunReport req], respond host_with_default (runReport (analyticsDataClient host_with_default) req))
          \<and> property req = Some ''properties/123456''
          \<and> dateRanges req
              = [\<lparr>date_range.startDate = ''7daysAgo'', date_range.endDate = ''today''\<rparr>]
          \<and> dimensions req = [\<lparr>name = ''eventName''\<rparr>]
          \<and> metrics req = [\<lparr>name = ''eventCount''\<rparr>])"
proof -
  have s: "field [] ''startDate'' = None" and e: "field [] ''endDate'' = None"
    and p: "field [] ''propertyId'' = map_option JStr None"
    by (simp_all add: field_def)
  have b: "buildProperty (env host_with_default) (Some \<lparr>propertyId = None\<rparr>) = Some ''properties/123456''"
    by (simp add: run_defs)
  have t0: "spec_preset_table get_traffic_sources = Some ([''source'', ''medium''], [''sessions''])"
    by simp
  note r0 = preset_defaults [OF t0 s e p, of host_with_default, unfolded b]
  have t1: "spec_preset_table get_user_demographics = Some ([''country'', ''city''], [''activeUsers''])"
    by simp
  note r1 = preset_defaults [OF t1 s e p, of host_with_default, unfolded b]
  have t2: "spec_preset_table get_page_performance = Some ([''pagePath''], [''screenPageViews'', ''averageSessionDuration''])"
    by simp
  note r2 = preset_defaults [OF t2 s e p, of host_with_default, unfolded b]
  have t3: "spec_preset_table get_conversion_data = Some ([''eventName''], [''eventCount''])"
    by simp
  note r3 = preset_defaults [OF t3 s e p, of host_with_default, unfolded b]
  from s e p t0 r0 t1 r1 t2 r2 t3 r3 show ?thesis
    by simp
qed

text \<open>
  Claim C8. Each of the three tools that take name lists from the caller, on
  well-formed arguments, makes one backend call whose request holds one \<open>{name: s}\<close>
  record per supplied string, in the order supplied: its dimensions are the supplied
  dimension names mapped to records, and likewise its metrics. (A map over a list keeps
  its length and its order.)
\<close>

theorem names_wrapped_in_order:
  assumes "t = query_analytics \<or> t = get_custom_report \<or> t = get_realtime_data"
    and "well_formed (zod h) t fs"
  shows "\<exists>c. callTool h t (Some (JObj fs)) = ([c], respond h (answer h c))
     \<and> (\<forall>ds. field fs ''dimensions'' = Some (JArr (map JStr ds))
            \<longrightarrow> call_dimensions c = map (\<lambda>n. \<lparr>name = n\<rparr>) ds)
     \<and> (\<forall>ms. field fs ''metrics'' = Some (JArr (map JStr ms))
            \<longrightarrow> call_metrics c = map (\<lambda>n. \<lparr>name = n\<rparr>) ms)"
proof -
  from assms(2) have acc: "snd (callTool h t (Some (JObj fs))) \<noteq> Inl InputValidationError"
    by (simp add: well_formed_accepted)
  have "\<exists>c. fst (callTool h t (Some (JObj fs))) = [c]
     \<and> (\<forall>ds. field fs ''dimensions'' = Some (JArr (map JStr ds))
            \<longrightarrow> call_dimensions c = map (\<lambda>n. \<lparr>name = n\<rparr>) ds)
     \<and> (\<forall>ms. field fs ''metrics'' = Some (JArr (map JStr ms))
            \<longrightarrow> call_metrics c = map (\<lambda>n. \<lparr>name = n\<rparr>) ms)"
  proof (cases "t = get_realtime_data")
    case True
    with realtime_call [of h "Some (JObj fs)"] acc show ?thesis
      by (auto simp: inj_map_eq_map inj_on_def)
  next
    case False
    with assms(1) have "t = query_analytics \<or> t = get_custom_report"
      by blast
    from report_tools_call [OF this acc] show ?thesis
      by (auto simp: inj_map_eq_map inj_on_def)
  qed
  then obtain c where c: "fst (callTool h t (Some (JObj fs))) = [c]"
    and n: "\<forall>ds. field fs ''dimensions'' = Some (JArr (map JStr ds))
            \<longrightarrow> call_dimensions c = map (\<lambda>n. \<lparr>name = n\<rparr>) ds"
       "\<forall>ms. field fs ''metrics'' = Some (JArr (map JStr ms))
            \<longrightarrow> call_metrics c = map (\<lambda>n. \<lparr>name = n\<rparr>) ms"
    by blast
  from callTool_cases [of h t "Some (JObj fs)"] c
  have "callTool h t (Some (JObj fs)) = ([c], respond h (answer h c))"
    by auto
  with n show ?thesis by blast
qed

text \<open>
  The theorem at one invocation of each of the three tools; the report tools are given
  a repeated dimension name.
\<close>

theorem names_wrapped_in_order_witness:
  "(query_analytics = query_analytics \<or> query_analytics = get_custom_report \<or> query_analytics = get_realtime_data)
   \<and> well_formed (zod host_with_default) query_analytics (example_arguments query_analytics)
   \<and> field (example_arguments query_analytics) ''dimensions'' = Some (JArr (map JStr [''city'', ''country'', ''city'']))
   \<and> field (example_arguments query_analytics) ''metrics'' = Some (JArr (map JStr [''sessions'', ''activeUsers'']))
   \<and> (\<exists>c. callTool host_with_default query_analytics (Some (JObj (example_arguments query_analytics)))
            = ([c], respond host_with_default (answer host_with_default c))
          \<and> call_dimensions c = [\<lparr>name = ''city''\<rparr>, \<lparr>name = ''country''\<rparr>, \<lparr>name = ''city''\<rparr>]
          \<and> call_metrics c = [\<lparr>name = ''sessions''\<rparr>, \<lparr>name = ''activeUsers''\<rparr>])
   \<and> (get_custom_report = query_analytics \<or> get_custom_report = get_custom_report \<or> get_custom_report = get_realtime_data)
   \<and> well_formed (zod host_with_default) get_custom_report (example_arguments get_custom_report)
   \<and> field (example_arguments get_custom_report) ''dimensions'' = Some (JArr (map JStr [''city'', ''country'', ''city'']))
   \<and> field (example_arguments get_custom_report) ''metrics'' = Some (JArr (map JStr [''sessions'', ''activeUsers'']))
   \<and> (\<exists>c. callTool host_with_default get_custom_report (Some (JObj (example_arguments get_custom_report)))
            = ([c], respond host_with_default (answer host_with_default c))
          \<and> call_dimensions c = [\<lparr>name = ''city''\<rparr>, \<lparr>name = ''country''\<rparr>, \<lparr>name = ''city''\<rparr>]
          \<and> call_metrics c = [\<lparr>name = ''sessions''\<rparr>, \<lparr>name = ''activeUsers''\<rparr>])
   \<and> (get_realtime_data = query_analytics \<or> get_realtime_data = get_custom_report \<or> get_realtime_data = get_realtime_data)
   \<and> well_formed (zod host_with_default) get_realtime_data (example_arguments get_realtime_data)
   \<and> field (example_arguments get_realtime_data) ''dimensions'' = Some (JArr (map JStr [''city'']))
   \<and> field (example_arguments get_realtime_data) ''metrics'' = Some (JArr (map JStr [''activeUsers'', ''screenPageViews'']))
   \<and> (\<exists>c. callTool host_with_default get_realtime_data (Some (JObj (example_arguments get_realtime_data)))
            = ([c], respond host_with_default (answer host_with_default c))
          \<and> call_dimensions c = [\<lparr>name = ''city''\<rparr>]
          \<and> call_metrics c = [\<lparr>name = ''activeUsers''\<rparr>, \<lparr>name = ''screenPageViews''\<rparr>])"
proof -
  have t0: "query_analytics = query_analytics \<or> query_analytics = get_custom_report \<or> query_analytics = get_realtime_data"
    by simp
  have w0: "well_formed (zod host_with_default) query_analytics (example_arguments query_analytics)"
    by (simp add: run_defs)
  have d0: "field (example_arguments query_analytics) ''dimensions'' = Some (JArr (map JStr [''city'', ''country'', ''city'']))"
    by (simp add: run_defs)
  have m0: "field (example_arguments query_analytics) ''metrics'' = Some (JArr (map JStr [''sessions'', ''activeUsers'']))"
    by (simp add: run_defs)
  from names_wrapped_in_order [OF t0 w0] d0 m0
  have r0: "\<exists>c. callTool host_with_default query_analytics (Some (JObj (example_arguments query_analytics)))
            = ([c], respond host_with_default (answer host_with_default c))
          \<and> call_dimensions c = [\<lparr>name = ''city''\<rparr>, \<lparr>name = ''country''\<rparr>, \<lparr>name = ''city''\<rparr>]
          \<and> call_metrics c = [\<lparr>name = ''sessions''\<rparr>, \<lparr>name = ''activeUsers''\<rparr>]"
    by fastforce
  have t1: "get_custom_report = query_analytics \<or> get_custom_report = get_custom_report \<or> get_custom_report = get_realtime_data"
    by simp
  have w1: "well_formed (zod host_with_default) get_custom_report (example_arguments get_custom_report)"
    by (simp add: run_defs)
  have d1: "field (example_arguments get_custom_report) ''dimensions'' = Some (JArr (map JStr [''city'', ''country'', ''city'']))"
    by (simp add: run_defs)
  have m1: "field (example_arguments get_custom_report) ''metrics'' = Some (JArr (map JStr [''sessions'', ''activeUsers'']))"
    by (simp add: run_defs)
  from names_wrapped_in_order [OF t1 w1] d1 m1
  have r1: "\<exists>c. callTool host_with_default get_custom_report (Some (JObj (example_arguments get_custom_report)))
            = ([c], respond host_with_default (answer host_with_default c))
          \<and> call_dimensions c = [\<lparr>name = ''city''\<rparr>, \<lparr>name = ''country''\<rparr>, \<lparr>name = ''city''\<rparr>]
          \<and> call_metrics c = [\<lparr>name = ''sessions''\<rparr>, \<lparr>name = ''activeUsers''\<rparr>]"
    by fastforce
  have t2: "get_realtime_data = query_analytics \<or> get_realtime_data = get_custom_report \<or> get_realtime_data = get_realtime_data"
    by simp
  have w2: "well_formed (zod host_with_default) get_realtime_data (example_arguments get_realtime_data)"
    by (simp add: run_defs)
  have d2: "field (example_arguments get_realtime_data) ''dimensions'' = Some (JArr (map JStr [''city'']))"
    by (simp add: run_defs)
  have m2: "field (example_arguments get_realtime_data) ''metrics'' = Some (JArr (map JStr [''activeUsers'', ''screenPageViews'']))"
    by (simp add: run_defs)
  from names_wrapped_in_order [OF t2 w2] d2 m2
  have r2: "\<exists>c. callTool host_with_default get_realtime_data (Some (JObj (example_arguments get_realtime_data)))
            = ([c], respond host_with_default (answer host_with_default c))
          \<and> call_dimensions c = [\<lparr>name = ''city''\<rparr>]
          \<and> call_metrics c = [\<lparr>name = ''activeUsers''\<rparr>, \<lparr>name = ''screenPageViews''\<rparr>]"
    by fastforce
  from t0 w0 d0 m0 r0 t1 w1 d1 m1 r1 t2 w2 d2 m2 r2 show ?thesis
    by blast
qed

text \<open>
  Claim C9. When \<open>buildProperty\<close> resolves an identifier \<open>i\<close> (a non-empty string,
  from the parsed override \<open>ovr\<close> or from the default), the property sent to the backend
  is \<open>properties/\<close> followed by \<open>i\<close>, and not \<open>i\<close> itself.
\<close>

theorem property_has_prefix:
  assumes "snd (callTool h t (Some (JObj fs))) \<noteq> Inl InputValidationError"
    and "z_optional z_string (field fs ''propertyId'') = Inr ovr"
    and "buildProperty_id (env h) (Some \<lparr>propertyId = ovr\<rparr>) = Some i"
    and "i \<noteq> []"
  shows "\<exists>c. fst (callTool h t (Some (JObj fs))) = [c]
     \<and> call_property c = Some (''properties/'' @ i)
     \<and> call_property c \<noteq> Some i"
proof -
  from callTool_accepted [OF assms(1)] assms(2) obtain c
    where c: "fst (callTool h t (Some (JObj fs))) = [c]"
      and b: "call_property c = buildProperty (env h) (Some \<lparr>propertyId = ovr\<rparr>)"
    by auto
  from b assms(3,4) have "call_property c = Some (''properties/'' @ i)"
    by (simp add: buildProperty_def)
  with c show ?thesis by simp
qed

text \<open>The theorem at an invocation where the identifier comes from the default.\<close>

theorem property_has_prefix_witness:
  "snd (callTool (example_host env_with_default Zod3) get_user_demographics (Some (JObj [])))
     \<noteq> Inl InputValidationError
   \<and> z_optional z_string (field [] ''propertyId'') = Inr None
   \<and> buildProperty_id (env (example_host env_with_default Zod3)) (Some \<lparr>propertyId = None\<rparr>)
       = Some ''123456''
   \<and> ''123456'' \<noteq> []
   \<and> (\<exists>c. fst (callTool (example_host env_with_default Zod3) get_user_demographics
                 (Some (JObj []))) = [c]
          \<and> call_property c = Some (''properties/'' @ ''123456'')
          \<and> call_property c \<noteq> Some ''123456'')"
proof -
  have a: "snd (callTool (example_host env_with_default Zod3) get_user_demographics
             (Some (JObj []))) \<noteq> Inl InputValidationError"
    by (simp add: run_defs)
  have p: "z_optional z_string (field [] ''propertyId'') = Inr None"
    by (simp add: run_defs)
  have b: "buildProperty_id (env (example_host env_with_default Zod3))
             (Some \<lparr>propertyId = None\<rparr>) = Some ''123456''"
    by (simp add: run_defs)
  have n: "''123456'' \<noteq> []" by simp
  from property_has_prefix [OF a p b n] a p b n show ?thesis
    by blast
qed

text \<open>
  Claim C10. An override that is the empty string is treated as absent: the property
  sent is the one \<open>buildProperty\<close> gives with no override, that is
  \<open>properties/<default>\<close> when a (non-empty) default is configured and \<open>undefined\<close>
  when there is none.
\<close>

theorem empty_override_is_absent:
  assumes "field fs ''propertyId'' = Some (JStr '''')"
    and "snd (callTool h t (Some (JObj fs))) \<noteq> Inl InputValidationError"
  shows "\<exists>c. fst (callTool h t (Some (JObj fs))) = [c]
     \<and> call_property c = buildProperty (env h) (Some \<lparr>propertyId = None\<rparr>)
     \<and> (\<forall>d. default_propertyId (env h) = Some d \<longrightarrow> d \<noteq> []
            \<longrightarrow> call_property c = Some (''properties/'' @ d))
     \<and> (default_propertyId (env h) = None \<longrightarrow> call_property c = None)"
proof -
  from callTool_accepted [OF assms(2)] obtain o' c
    where p: "z_optional z_string (field fs ''propertyId'') = Inr o'"
      and c: "fst (callTool h t (Some (JObj fs))) = [c]"
      and b: "call_property c = buildProperty (env h) (Some \<lparr>propertyId = o'\<rparr>)"
    by auto
  from p assms(1) have "o' = Some ''''"
    by (simp add: z_optional_string_Inr)
  with b c show ?thesis
    by (simp add: buildProperty_def buildProperty_id_def js_or_def)
qed

text \<open>The theorem at the same invocation on a host with a default and on one without.\<close>

theorem empty_override_is_absent_witness:
  "field [(''propertyId'', JStr '''')] ''propertyId'' = Some (JStr '''')
   \<and> snd (callTool (example_host env_with_default Zod3) get_conversion_data
            (Some (JObj [(''propertyId'', JStr '''')]))) \<noteq> Inl InputValidationError
   \<and> snd (callTool (example_host env_without_default Zod3) get_conversion_data
            (Some (JObj [(''propertyId'', JStr '''')]))) \<noteq> Inl InputValidationError
   \<and> default_propertyId (env (example_host env_with_default Zod3)) = Some ''123456''
   \<and> default_propertyId (env (example_host env_without_default Zod3)) = None
   \<and> (\<exists>c. fst (callTool (example_host env_with_default Zod3) get_conversion_data
                  (Some (JObj [(''propertyId'', JStr '''')]))) = [c]
          \<and> call_property c = Some ''properties/123456'')
   \<and> (\<exists>c. fst (callTool (example_host env_without_default Zod3) get_conversion_data
                  (Some (JObj [(''propertyId'', JStr '''')]))) = [c]
          \<and> call_property c = None)"
proof -
  have f: "field [(''propertyId'', JStr '''')] ''propertyId'' = Some (JStr '''')"
    by (simp add: field_def)
  have a1: "snd (callTool (example_host env_with_default Zod3) get_conversion_data
            (Some (JObj [(''propertyId'', JStr '''')]))) \<noteq> Inl InputValidationError"
    and a2: "snd (callTool (example_host env_without_default Zod3) get_conversion_data
            (Some (JObj [(''propertyId'', JStr '''')]))) \<noteq> Inl InputValidationError"
    by (simp_all add: run_defs)
  have d1: "default_propertyId (env (example_host env_with_default Zod3)) = Some ''123456''"
    and d2: "default_propertyId (env (example_host env_without_default Zod3)) = None"
    by (simp_all add: run_defs)
  from empty_override_is_absent [OF f a1] d1
  have c1: "\<exists>c. fst (callTool (example_host env_with_default Zod3) get_conversion_data
                  (Some (JObj [(''propertyId'', JStr '''')]))) = [c]
          \<and> call_property c = Some ''properties/123456''"
    by auto
  from empty_override_is_absent [OF f a2] d2
  have c2: "\<exists>c. fst (callTool (example_host env_without_default Zod3) get_conversion_data
                  (Some (JObj [(''propertyId'', JStr '''')]))) = [c]
          \<and> call_property c = None"
    by auto
  from f a1 a2 d1 d2 c1 c2 show ?thesis
    by blast
qed

end
